theory Spec2Isabelle
  imports Complex_Main "HOL-Library.Sublist" "HOL-Library.AList"
    "HOL-Library.Char_ord" "HOL-Library.List_Lexorder"
begin

section \<open>Python values used by \<open>vis_utils.py\<close>\<close>

text \<open>
  Exceptions are values: every raise of the source is an \<open>Inl\<close> branch of the model.
  \<open>KeyError\<close> carries the missing key (a string, or an integer when a dictionary is
  subscripted with the pattern index); \<open>HostError\<close> stands for whatever an external
  collaborator (\<open>os.listdir\<close>, the log loader) raises beyond the exceptions named here.
\<close>

datatype py_error =
    IndexError
  | KeyError "string + int"
  | TypeError
  | AttributeError
  | AxisError
  | ValueError
  | HostError string

text \<open>Python's \<open>sub in s\<close> on strings: \<open>sub\<close> occurs in \<open>s\<close> as a contiguous block.\<close>

fun str_contains :: "string \<Rightarrow> string \<Rightarrow> bool" where
  "str_contains sub [] = (sub = [])"
| "str_contains sub (c # cs) = (prefix sub (c # cs) \<or> str_contains sub cs)"

text \<open>
  An integer subscript on a sequence of length \<open>n\<close>: positions \<open>0 .. n-1\<close> as they are,
  \<open>-n .. -1\<close> counted from the end, anything else out of range.
\<close>

definition norm_index :: "nat \<Rightarrow> int \<Rightarrow> nat option" where
  "norm_index n i =
     (if 0 \<le> i \<and> i < int n then Some (nat i)
      else if - int n \<le> i \<and> i < 0 then Some (nat (int n + i))
      else None)"

definition py_index :: "'a list \<Rightarrow> int \<Rightarrow> py_error + 'a" where
  "py_index xs i =
     (case norm_index (length xs) i of None \<Rightarrow> Inl IndexError | Some j \<Rightarrow> Inr (xs ! j))"

subsection \<open>numpy arrays\<close>

text \<open>
  An n-dimensional array is its shape and its elements in row-major order.  The element
  type stays a parameter: the module never inspects an element.
\<close>

datatype 'a ndarray = NDArray (shape: "nat list") (flat: "'a list")

definition ndim :: "'a ndarray \<Rightarrow> nat" where
  "ndim a = length (shape a)"

definition wf_ndarray :: "'a ndarray \<Rightarrow> bool" where
  "wf_ndarray a = (length (flat a) = prod_list (shape a))"

definition map_ndarray_elems :: "('a \<Rightarrow> 'b) \<Rightarrow> 'a ndarray \<Rightarrow> 'b ndarray" where
  "map_ndarray_elems f a = NDArray (shape a) (map f (flat a))"

text \<open>All multi-indices of a shape, in row-major order, and the row-major offset of one.\<close>

fun indices :: "nat list \<Rightarrow> nat list list" where
  "indices [] = [[]]"
| "indices (n # ns) = concat (map (\<lambda>i. map ((#) i) (indices ns)) [0..<n])"

fun offset :: "nat list \<Rightarrow> nat list \<Rightarrow> nat" where
  "offset (n # ns) (i # ix) = i * prod_list ns + offset ns ix"
| "offset _ _ = 0"

text \<open>\<open>np.zeros(dims)\<close>.\<close>

definition zeros :: "nat list \<Rightarrow> 'a::zero ndarray" where
  "zeros dims = NDArray dims (replicate (prod_list dims) 0)"

text \<open>\<open>a.T\<close>: the axes in reverse order; element \<open>ix\<close> of the result is element \<open>rev ix\<close> of \<open>a\<close>.\<close>

definition transpose_nd :: "'a ndarray \<Rightarrow> 'a ndarray" where
  "transpose_nd a =
     NDArray (rev (shape a))
       (map (\<lambda>ix. flat a ! offset (shape a) (rev ix)) (indices (rev (shape a))))"

text \<open>
  \<open>np.expand_dims(a, axis=1)\<close>: a new axis of length 1 in second position.  On a
  0-dimensional array the axis is out of range and numpy raises \<open>AxisError\<close>.
\<close>

definition expand_dims_axis1 :: "'a ndarray \<Rightarrow> py_error + 'a ndarray" where
  "expand_dims_axis1 a =
     (case shape a of
        [] \<Rightarrow> Inl AxisError
      | n # ns \<Rightarrow> Inr (NDArray (n # 1 # ns) (flat a)))"

text \<open>
  \<open>a[i]\<close> with an integer \<open>i\<close>: the \<open>i\<close>-th block along the first axis, negative \<open>i\<close>
  counting from the end; \<open>IndexError\<close> out of range and on a 0-dimensional array.
\<close>

definition getitem :: "'a ndarray \<Rightarrow> int \<Rightarrow> py_error + 'a ndarray" where
  "getitem a i =
     (case shape a of
        [] \<Rightarrow> Inl IndexError
      | n # ns \<Rightarrow>
          (case norm_index n i of
             None \<Rightarrow> Inl IndexError
           | Some j \<Rightarrow> Inr (NDArray ns (take (prod_list ns) (drop (j * prod_list ns) (flat a))))))"

text \<open>Sequencing of fallible steps: the first exception ends the computation.\<close>

definition and_then :: "'e + 'a \<Rightarrow> ('a \<Rightarrow> 'e + 'b) \<Rightarrow> 'e + 'b" where
  "and_then r f = (case r of Inl e \<Rightarrow> Inl e | Inr x \<Rightarrow> f x)"

text \<open>\<open>d[k]\<close> on a dictionary with string keys.\<close>

definition lookup :: "(string \<times> 'v) list \<Rightarrow> string \<Rightarrow> py_error + 'v" where
  "lookup d k = (case map_of d k of None \<Rightarrow> Inl (KeyError (Inl k)) | Some v \<Rightarrow> Inr v)"

subsection \<open>Loaded run logs\<close>

text \<open>
  What the log loader returns is a sequence of snapshots.  A snapshot is a dictionary whose
  values are numbers, arrays, or references to further dictionaries (the per-layer
  dictionaries).  Dictionaries are objects: they live in a store and are referred to by
  address, so that a write through one reference is seen through every other.
\<close>

type_synonym addr = nat

datatype 'a pyobj = PyInt int | PyArr "'a ndarray" | PyRef addr

type_synonym 'a pydict = "(string \<times> 'a pyobj) list"

type_synonym 'a store = "addr \<Rightarrow> 'a pydict"

record 'a loaded =
  snaps :: "'a pydict list"
  objects :: "'a store"

section \<open>The image grid of one layer: \<open>_make_axes_grid\<close>\<close>

text \<open>
  An image as the module uses it: the data shown, the colormap and the two ends of the
  colour scale (\<open>None\<close> until \<open>_draw_layers\<close> sets them), and the place and title of
  its axes in the grid.  The layout calls into the plotting library (divider, ghost axis,
  cursor observer) produce no value that the module reads back and are left out.
\<close>

record 'a image =
  img_data :: "'a ndarray"
  img_cmap :: "string option"
  img_vmin :: "int option"
  img_vmax :: "int option"
  ax_coords :: "nat \<times> nat"
  ax_title :: string

type_synonym 'a img_dict = "(string \<times> 'a image) list"

type_synonym ax_param = "(nat \<times> nat) \<times> (nat \<times> nat) \<times> string"

definition gax_params :: "nat \<Rightarrow> nat \<Rightarrow> nat \<Rightarrow> (string \<times> ax_param) list" where
  "gax_params inp_size layer_size t =
     [(''gweights'', ((9 + 2 * t, 2), (layer_size, inp_size), ''W'' @ [CHR 0x27])),
      (''gbiases'', ((11 + 2 * t, 2), (layer_size, 1), ''b'' @ [CHR 0x27])),
      (''gnet_input'', ((13 + 2 * t, 2), (layer_size, 1), ''net'' @ [CHR 0x27])),
      (''goutput'', ((15 + 2 * t, 2), (layer_size, 1), ''a'' @ [CHR 0x27]))]"

definition ax_params :: "nat \<Rightarrow> nat \<Rightarrow> int \<Rightarrow> bool \<Rightarrow> (string \<times> ax_param) list" where
  "ax_params inp_size layer_size mode target =
     (let t = (if target then 1 else 0 :: nat);
          p0 = [(''input_'', ((0, 0), (1, inp_size), ''input'')),
                (''weights'', ((0, 2), (layer_size, inp_size), ''W'')),
                (''biases'', ((2, 2), (layer_size, 1), ''b'')),
                (''net_input'', ((4, 2), (layer_size, 1), ''net'')),
                (''output'', ((6, 2), (layer_size, 1), ''a''))];
          p1 = (if t \<noteq> 0 then AList.update ''targets'' ((8, 2), (layer_size, 1), ''t'') p0 else p0)
      in if mode > 0 then
           (let p2 = foldl (\<lambda>d (k, v). AList.update k v d) p1 (gax_params inp_size layer_size t)
            in if mode > 1 then
                 AList.update ''sgbiases'' ((19 + 2 * t, 2), (layer_size, 1), ''sb'' @ [CHR 0x27])
                   (AList.update ''sgweights''
                      ((17 + 2 * t, 2), (layer_size, inp_size), ''sW'' @ [CHR 0x27]) p2)
               else p2)
         else p1)"

definition new_image :: "ax_param \<Rightarrow> 'a::zero image" where
  "new_image p =
     (case p of (coords, (rows, cols), title) \<Rightarrow>
        \<lparr>img_data = zeros [rows, cols], img_cmap = None, img_vmin = None, img_vmax = None,
         ax_coords = coords, ax_title = title\<rparr>)"

definition make_axes_grid :: "nat \<Rightarrow> nat \<Rightarrow> int \<Rightarrow> bool \<Rightarrow> 'a::zero img_dict" where
  "make_axes_grid inp_size layer_size mode target =
     foldl (\<lambda>img_dict (k, p). AList.update k (new_image p) img_dict) []
       (ax_params inp_size layer_size mode target)"

section \<open>Drawing one snapshot: \<open>_draw_layers\<close>\<close>

text \<open>
  The path of one tensor from the snapshot to its image (the body of the inner loop):
  transposed under the key \<open>weights\<close>, given a second axis of length 1 under every key
  that contains \<open>biases\<close>, then, with more than two axes, cut at the pattern index and,
  except under the key \<open>input_\<close>, transposed.
\<close>

definition draw_array :: "string \<Rightarrow> int \<Rightarrow> 'a ndarray \<Rightarrow> py_error + 'a ndarray" where
  "draw_array k pind data0 =
     (let data1 = (if k = ''weights'' then transpose_nd data0 else data0)
      in and_then (if str_contains ''biases'' k then expand_dims_axis1 data1 else Inr data1)
           (\<lambda>data2.
              if ndim data2 > 2
              then and_then (getitem data2 pind)
                     (\<lambda>data3. Inr (if k \<noteq> ''input_'' then transpose_nd data3 else data3))
              else Inr data2))"

text \<open>
  A value that is not an array has neither \<open>.T\<close> nor \<open>.ndim\<close> (\<open>AttributeError\<close>);
  \<open>np.expand_dims\<close> turns it into a 0-dimensional array first and then rejects the axis.
\<close>

definition draw_data :: "string \<Rightarrow> int \<Rightarrow> 'a pyobj \<Rightarrow> py_error + 'a ndarray" where
  "draw_data k pind v =
     (case v of
        PyArr a \<Rightarrow> draw_array k pind a
      | _ \<Rightarrow> if k = ''weights'' then Inl AttributeError
             else if str_contains ''biases'' k then Inl AxisError
             else Inl AttributeError)"

text \<open>
  The first loop: \<open>snap_ldicts[layer_name] = snap[layer_name]\<close> stores a reference, and
  \<open>snap_ldicts[layer_name]['targets'] = targ\<close> writes through it into the layer
  dictionary of the loaded snapshot.  Item assignment on an array or a number raises.
\<close>

fun collect_ldicts ::
  "'a pydict \<Rightarrow> 'a pyobj \<Rightarrow> string list \<Rightarrow> (string \<times> addr) list \<Rightarrow> 'a store
     \<Rightarrow> py_error + ((string \<times> addr) list \<times> 'a store)" where
  "collect_ldicts snap targ [] snap_ldicts st = Inr (snap_ldicts, st)"
| "collect_ldicts snap targ (layer_name # rest) snap_ldicts st =
     (case map_of snap layer_name of
        None \<Rightarrow> Inl (KeyError (Inl layer_name))
      | Some (PyRef p) \<Rightarrow>
          collect_ldicts snap targ rest (AList.update layer_name p snap_ldicts)
            (st(p := AList.update ''targets'' targ (st p)))
      | Some (PyArr a) \<Rightarrow> Inl IndexError
      | Some (PyInt n) \<Rightarrow> Inl TypeError)"

text \<open>
  The plotting library, as \<open>_draw_layers\<close> calls it: \<open>img.set_data(data)\<close> and
  \<open>get_cmap(colormap)\<close> either return or raise, as the library decides (it refuses image
  data of the wrong number of axes with \<open>TypeError\<close> and a colormap name it does not know
  with \<open>ValueError\<close>).  What each call raises on an argument, if anything, is a parameter.
\<close>

record 'a plotting =
  set_data_raises :: "'a ndarray \<Rightarrow> py_error option"
  get_cmap_raises :: "string \<Rightarrow> py_error option"

definition raise_if :: "py_error option \<Rightarrow> py_error + unit" where
  "raise_if r = (case r of None \<Rightarrow> Inr () | Some e \<Rightarrow> Inl e)"

text \<open>
  The body of the inner loop, for the image \<open>img\<close> under key \<open>k\<close>: the lookup of the
  tensor, its path, \<open>img.set_data(data)\<close>, \<open>img.cmap = get_cmap(colormap)\<close> and the two
  ends of the colour scale.
\<close>

definition draw_img ::
  "'a plotting \<Rightarrow> 'a pydict \<Rightarrow> string \<Rightarrow> int \<times> int \<Rightarrow> int \<Rightarrow> string \<Rightarrow> 'a image
     \<Rightarrow> py_error + 'a image" where
  "draw_img mpl ldict colormap vrange pind k img =
     and_then (lookup ldict k) (\<lambda>v.
     and_then (draw_data k pind v) (\<lambda>data.
     and_then (raise_if (set_data_raises mpl data)) (\<lambda>_.
     and_then (raise_if (get_cmap_raises mpl colormap)) (\<lambda>_.
       Inr (img\<lparr>img_data := data, img_cmap := Some colormap,
                 img_vmin := Some (fst vrange), img_vmax := Some (snd vrange)\<rparr>)))))"

text \<open>The inner loop, over the items of one image dictionary.\<close>

fun draw_img_dict ::
  "'a plotting \<Rightarrow> 'a pydict \<Rightarrow> string \<Rightarrow> int \<times> int \<Rightarrow> int \<Rightarrow> 'a img_dict
     \<Rightarrow> py_error + 'a img_dict" where
  "draw_img_dict mpl ldict colormap vrange pind [] = Inr []"
| "draw_img_dict mpl ldict colormap vrange pind ((k, img) # rest) =
     and_then (draw_img mpl ldict colormap vrange pind k img) (\<lambda>img'.
     and_then (draw_img_dict mpl ldict colormap vrange pind rest) (\<lambda>rest'.
       Inr ((k, img') # rest')))"

text \<open>The outer loop, over \<open>zip(img_dicts, layer_names)\<close>.\<close>

fun draw_img_dicts ::
  "'a plotting \<Rightarrow> (string \<times> addr) list \<Rightarrow> 'a store \<Rightarrow> string \<Rightarrow> int \<times> int \<Rightarrow> int
     \<Rightarrow> ('a img_dict \<times> string) list \<Rightarrow> py_error + 'a img_dict list" where
  "draw_img_dicts mpl snap_ldicts st colormap vrange pind [] = Inr []"
| "draw_img_dicts mpl snap_ldicts st colormap vrange pind ((img_dict, layer_name) # rest) =
     and_then (lookup snap_ldicts layer_name) (\<lambda>p.
     and_then (draw_img_dict mpl (st p) colormap vrange pind img_dict) (\<lambda>d.
     and_then (draw_img_dicts mpl snap_ldicts st colormap vrange pind rest) (\<lambda>ds.
       Inr (d # ds))))"

text \<open>\<open>snap['loss'][pind]\<close>: the subscript on whatever is stored under \<open>loss\<close>.\<close>

definition subscript :: "'a store \<Rightarrow> 'a pyobj \<Rightarrow> int \<Rightarrow> py_error + 'a pyobj" where
  "subscript st v i =
     (case v of
        PyArr a \<Rightarrow> and_then (getitem a i) (\<lambda>r. Inr (PyArr r))
      | PyInt n \<Rightarrow> Inl TypeError
      | PyRef p \<Rightarrow> Inl (KeyError (Inr i)))"

text \<open>
  The format \<open>{:.5f}\<close> accepts a number or a 0-dimensional array, nothing else.  The model
  keeps the value printed and leaves its decimal rendering out.
\<close>

datatype 'a number = IntNum int | ElemNum 'a

definition format_5f :: "'a pyobj \<Rightarrow> py_error + 'a number" where
  "format_5f v =
     (case v of
        PyInt n \<Rightarrow> Inr (IntNum n)
      | PyArr a \<Rightarrow> (case (shape a, flat a) of ([], [x]) \<Rightarrow> Inr (ElemNum x) | _ \<Rightarrow> Inl TypeError)
      | PyRef p \<Rightarrow> Inl TypeError)"

text \<open>
  The result of a call: the line printed, the images as they are left, and the store of
  the loaded log as it is left.  \<open>vrange\<close> is the pair an \<open>IntRangeSlider\<close> holds.
\<close>

record 'a drawn =
  printed :: "'a pyobj \<times> 'a number"
  images :: "'a img_dict list"
  objects_after :: "'a store"

definition draw_layers ::
  "'a plotting \<Rightarrow> (string \<Rightarrow> py_error + 'a loaded) \<Rightarrow> string \<Rightarrow> 'a img_dict list
     \<Rightarrow> string list \<Rightarrow> string \<Rightarrow> int \<times> int \<Rightarrow> int \<Rightarrow> int \<Rightarrow> py_error + 'a drawn" where
  "draw_layers mpl load_test_data runlog_path img_dicts layer_names colormap vrange tind pind =
     and_then (load_test_data runlog_path) (\<lambda>log.
     and_then (py_index (snaps log) tind) (\<lambda>snap.
     and_then (lookup snap ''enum'') (\<lambda>enum.
     and_then (lookup snap ''loss'') (\<lambda>losses.
     and_then (subscript (objects log) losses pind) (\<lambda>loss.
     and_then (lookup snap ''target'') (\<lambda>targ.
     and_then (collect_ldicts snap targ layer_names [] (objects log)) (\<lambda>(snap_ldicts, st).
     and_then (format_5f loss) (\<lambda>loss_shown.
     and_then (draw_img_dicts mpl snap_ldicts st colormap vrange pind
                 (zip img_dicts layer_names))
       (\<lambda>imgs.
          Inr \<lparr>printed = (enum, loss_shown), images = imgs, objects_after = st\<rparr>)))))))))"

section \<open>The controls: \<open>_make_logs_widget\<close> and \<open>view_layers\<close>\<close>

text \<open>
  A widget is the record of the arguments its constructor receives; \<open>w.value\<close> reads the
  value back as it was given.  The \<open>layout\<close> arguments only place the widget on screen and
  are left out.
\<close>

record 'v dropdown =
  dd_options :: "(string \<times> 'v) list"
  dd_description :: string
  dd_value :: 'v

record int_range_slider =
  rs_value :: "int \<times> int"
  rs_min :: int
  rs_max :: int
  rs_step :: real
  rs_description :: string

record int_slider =
  sl_value :: int
  sl_min :: int
  sl_max :: int
  sl_step :: int
  sl_description :: string

record select =
  sel_options :: "(string \<times> int) list"
  sel_value :: int
  sel_rows :: int
  sel_description :: string

text \<open>
  \<open>_make_logs_widget\<close>.  The directory listing and the path join belong to the host and
  are parameters.
\<close>

definition make_logs_widget ::
  "(string \<Rightarrow> py_error + string list) \<Rightarrow> (string \<Rightarrow> string \<Rightarrow> string) \<Rightarrow> string
     \<Rightarrow> py_error + string dropdown" where
  "make_logs_widget listdir joinp log_path =
     and_then (listdir log_path) (\<lambda>listing.
       let filenames = filter (str_contains ''.pkl'') listing;
           runlogs = foldl (\<lambda>d filename. AList.update filename (joinp log_path filename) d)
                       [] filenames
       in and_then (py_index filenames 0) (\<lambda>first.
          and_then (lookup runlogs first) (\<lambda>v.
            Inr \<lparr>dd_options = runlogs, dd_description = ''Run log: '', dd_value = v\<rparr>)))"

text \<open>The flags \<open>disp_targs\<close> and the loop that builds one image grid per layer.\<close>

definition disp_targs :: "string list \<Rightarrow> bool list" where
  "disp_targs layer_names = map (\<lambda>l. False) (butlast layer_names) @ [True]"

fun make_axes_dicts ::
  "(string \<times> nat list) list \<Rightarrow> int \<Rightarrow> (string \<times> bool) list \<Rightarrow> py_error + 'a::zero img_dict list"
  where
  "make_axes_dicts layer_dims mode [] = Inr []"
| "make_axes_dicts layer_dims mode ((layer_name, disp_targ) # rest) =
     and_then (lookup layer_dims layer_name) (\<lambda>dims.
     and_then (py_index dims 0) (\<lambda>inp_size.
     and_then (py_index dims 1) (\<lambda>layer_size.
     and_then (make_axes_dicts layer_dims mode rest) (\<lambda>grids.
       Inr (make_axes_grid inp_size layer_size mode disp_targ # grids)))))"

definition cmap_widget :: "string dropdown" where
  "cmap_widget =
     \<lparr>dd_options = map (\<lambda>name. (name, name))
        (sort [''BrBG'', ''bwr'', ''coolwarm'', ''PiYG'', ''PRGn'', ''PuOr'', ''RdBu'', ''RdGy'',
               ''RdYlBu'', ''RdYlGn'', ''seismic'']),
      dd_description = ''Colors: '', dd_value = ''coolwarm''\<rparr>"

definition vrange_widget :: int_range_slider where
  "vrange_widget =
     \<lparr>rs_value = (- 1, 1), rs_min = - 5, rs_max = 5, rs_step = 1 / 2,
      rs_description = ''V-range: ''\<rparr>"

definition step_widget :: "int list \<Rightarrow> py_error + int_slider" where
  "step_widget epochs =
     and_then (py_index epochs 0) (\<lambda>e0.
       Inr \<lparr>sl_value = e0, sl_min = 0, sl_max = int (length epochs) - 1, sl_step = 1,
            sl_description = ''Step index: ''\<rparr>)"

definition options_map :: "string list \<Rightarrow> (string \<times> int) list" where
  "options_map pattern_options =
     foldl (\<lambda>d (i, pattern_option). AList.update pattern_option (int i) d) []
       (enumerate 0 pattern_options)"

definition pattern_widget :: "string list \<Rightarrow> select" where
  "pattern_widget pattern_options =
     \<lparr>sel_options = options_map pattern_options, sel_value = 0,
      sel_rows = min 10 (int (length pattern_options)), sel_description = ''Pattern: ''\<rparr>"

text \<open>
  The dictionary handed to \<open>interactive_output\<close>: a control is a widget or a value
  wrapped in \<open>widgets.fixed\<close>.
\<close>

datatype 'a control =
    DropdownW "string dropdown"
  | IntRangeSliderW int_range_slider
  | IntSliderW int_slider
  | SelectW select
  | FixedImgDicts "'a img_dict list"
  | FixedNames "string list"


text \<open>The collaborators of \<open>utils\<close> and of the host, as \<open>view_layers\<close> calls them.\<close>

record host =
  listdir :: "string \<Rightarrow> py_error + string list"
  joinp :: "string \<Rightarrow> string \<Rightarrow> string"
  get_epochs :: "string \<Rightarrow> py_error + int list"
  get_layer_names :: "string \<Rightarrow> py_error + string list"
  get_layer_dims :: "string \<Rightarrow> string list \<Rightarrow> py_error + (string \<times> nat list) list"
  get_pattern_options :: "string \<Rightarrow> int \<Rightarrow> py_error + string list"

text \<open>
  What \<open>view_layers\<close> builds: the controls registered with \<open>interactive_output\<close>, and
  the rows of the panel it displays (each row the keys of the controls shown in it).
\<close>

record 'a view =
  controls_dict :: "(string \<times> 'a control) list"
  control_panel_rows :: "string list list"

definition view_layers :: "host \<Rightarrow> string \<Rightarrow> int \<Rightarrow> py_error + 'a::zero view" where
  "view_layers h log_path mode =
     and_then (make_logs_widget (listdir h) (joinp h) log_path) (\<lambda>run_widget.
     let runlog_path = dd_value run_widget in
     and_then (get_epochs h runlog_path) (\<lambda>epochs.
     and_then (get_layer_names h runlog_path) (\<lambda>layer_names.
     and_then (get_layer_dims h runlog_path layer_names) (\<lambda>layer_dims.
     and_then (make_axes_dicts layer_dims mode (zip layer_names (disp_targs layer_names)))
       (\<lambda>axes_dicts.
     and_then (step_widget epochs) (\<lambda>step_w.
     and_then (get_pattern_options h runlog_path (sl_value step_w)) (\<lambda>pattern_options.
       Inr \<lparr>controls_dict =
              [(''runlog_path'', DropdownW run_widget),
               (''img_dicts'', FixedImgDicts axes_dicts),
               (''layer_names'', FixedNames layer_names),
               (''colormap'', DropdownW cmap_widget),
               (''vrange'', IntRangeSliderW vrange_widget),
               (''tind'', IntSliderW step_w),
               (''pind'', SelectW (pattern_widget pattern_options))],
            control_panel_rows =
              [[''runlog_path'', ''pind''], [''colormap'', ''vrange''], [''tind'']]\<rparr>)))))))"




section \<open>Notions used to state the properties\<close>

text \<open>The addresses of the layer dictionaries that a snapshot holds under the given names.\<close>

definition layer_addrs :: "'a pydict \<Rightarrow> string list \<Rightarrow> addr list" where
  "layer_addrs snap names =
     concat (map (\<lambda>n. case map_of snap n of Some (PyRef p) \<Rightarrow> [p] | _ \<Rightarrow> []) names)"


text \<open>
  A plotting library for the examples: it takes arrays of two axes as image data and knows
  the colormaps that the dropdown of \<open>view_layers\<close> offers.
\<close>

definition two_axes_plotting :: "'a plotting" where
  "two_axes_plotting =
     \<lparr>set_data_raises = (\<lambda>d. if ndim d = 2 then None else Some TypeError),
      get_cmap_raises =
        (\<lambda>c. if c \<in> set [''BrBG'', ''bwr'', ''coolwarm'', ''PiYG'', ''PRGn'', ''PuOr'', ''RdBu'',
                               ''RdGy'', ''RdYlBu'', ''RdYlGn'', ''seismic'']
             then None else Some ValueError)\<rparr>"


section \<open>Basic facts\<close>

lemma str_contains_iff_sublist: "str_contains sub s \<longleftrightarrow> sublist sub s"
  by (induction s) (auto simp: sublist_Cons_right)

lemma and_then_Inr_iff: "and_then r f = Inr y \<longleftrightarrow> (\<exists>x. r = Inr x \<and> f x = Inr y)"
  by (cases r) (auto simp: and_then_def)

lemma and_then_Inl [simp]: "and_then (Inl e) f = Inl e"
  by (simp add: and_then_def)

lemma and_then_Inr [simp]: "and_then (Inr x) f = f x"
  by (simp add: and_then_def)

lemma py_index_0: "py_index xs 0 = (case xs of [] \<Rightarrow> Inl IndexError | x # _ \<Rightarrow> Inr x)"
  by (cases xs) (auto simp: py_index_def norm_index_def)

lemma and_then_Inl_iff:
  "and_then r f = Inl e \<longleftrightarrow> r = Inl e \<or> (\<exists>x. r = Inr x \<and> f x = Inl e)"
  by (cases r) (auto simp: and_then_def)

lemma raise_if_Inr_iff: "raise_if r = Inr u \<longleftrightarrow> r = None"
  by (cases r) (auto simp: raise_if_def)

lemma raise_if_Inl_iff: "raise_if r = Inl e \<longleftrightarrow> r = Some e"
  by (cases r) (auto simp: raise_if_def)

lemma lookup_Inr_iff: "lookup d k = Inr v \<longleftrightarrow> map_of d k = Some v"
  by (simp add: lookup_def split: option.splits)

lemma lookup_Inl_iff: "lookup d k = Inl e \<longleftrightarrow> map_of d k = None \<and> e = KeyError (Inl k)"
  by (auto simp: lookup_def split: option.splits)

lemma lookup_None: "map_of d k = None \<Longrightarrow> lookup d k = Inl (KeyError (Inl k))"
  by (simp add: lookup_def)

lemma draw_img_Inr_iff:
  "draw_img mpl ldict colormap vrange pind k img = Inr img' \<longleftrightarrow>
     (\<exists>v d. map_of ldict k = Some v \<and> draw_data k pind v = Inr d
          \<and> set_data_raises mpl d = None \<and> get_cmap_raises mpl colormap = None
          \<and> img' = img\<lparr>img_data := d, img_cmap := Some colormap,
                         img_vmin := Some (fst vrange), img_vmax := Some (snd vrange)\<rparr>)"
  unfolding draw_img_def and_then_Inr_iff lookup_Inr_iff raise_if_Inr_iff by auto


section \<open>Properties of the image grid\<close>

lemma ax_params_cases:
  "ax_params i l mode target =
     [(''input_'', ((0, 0), (1, i), ''input'')),
      (''weights'', ((0, 2), (l, i), ''W'')),
      (''biases'', ((2, 2), (l, 1), ''b'')),
      (''net_input'', ((4, 2), (l, 1), ''net'')),
      (''output'', ((6, 2), (l, 1), ''a''))]
     @ (if target then [(''targets'', ((8, 2), (l, 1), ''t''))] else [])
     @ (if mode > 0 then gax_params i l (if target then 1 else 0) else [])
     @ (if mode > 1 then
          [(''sgweights'', ((17 + 2 * (if target then 1 else 0), 2), (l, i), ''sW'' @ [CHR 0x27])),
           (''sgbiases'', ((19 + 2 * (if target then 1 else 0), 2), (l, 1), ''sb'' @ [CHR 0x27]))]
        else [])"
  by (simp add: ax_params_def gax_params_def Let_def)

lemma foldl_update_fresh:
  "distinct (map fst ps) \<Longrightarrow> set (map fst ps) \<inter> set (map fst acc) = {} \<Longrightarrow>
   foldl (\<lambda>d (k, p). AList.update k (f p) d) acc ps = acc @ map (\<lambda>(k, p). (k, f p)) ps"
proof (induction ps arbitrary: acc)
  case Nil then show ?case by simp
next
  case (Cons a ps)
  obtain k p where a: "a = (k, p)" by (cases a)
  have "AList.update k (f p) acc = acc @ [(k, f p)]"
    using Cons.prems(2) a by (induction acc) auto
  then show ?case using Cons a by (auto simp: update_keys)
qed

lemma make_axes_grid_eq:
  "make_axes_grid i l mode target = map (\<lambda>(k, p). (k, new_image p)) (ax_params i l mode target)"
  unfolding make_axes_grid_def
  by (subst foldl_update_fresh) (auto simp: ax_params_cases gax_params_def)

lemma keys_ax_params:
  "map fst (ax_params i l mode target) =
     [''input_'', ''weights'', ''biases'', ''net_input'', ''output'']
     @ (if target then [''targets''] else [])
     @ (if mode > 0 then [''gweights'', ''gbiases'', ''gnet_input'', ''goutput''] else [])
     @ (if mode > 1 then [''sgweights'', ''sgbiases''] else [])"
  by (simp add: ax_params_cases gax_params_def)

lemma keys_make_axes_grid:
  "map fst (make_axes_grid i l mode target) = map fst (ax_params i l mode target)"
  by (simp add: make_axes_grid_eq comp_def case_prod_beta)

lemma dims_ax_params:
  "(k, (c, d, t)) \<in> set (ax_params i l mode target) \<Longrightarrow>
     d = (if k = ''input_'' then (1, i)
          else if k \<in> {''weights'', ''gweights'', ''sgweights''} then (l, i)
          else (l, 1))"
  unfolding ax_params_cases gax_params_def
  by (cases target; cases "mode > 0"; cases "mode > 1") auto

lemma keys_set_make_axes_grid:
  "set (map fst (make_axes_grid i l mode target :: 'a::zero img_dict)) =
     {''input_'', ''weights'', ''biases'', ''net_input'', ''output''}
     \<union> (if target then {''targets''} else {})
     \<union> (if mode > 0 then {''gweights'', ''gbiases'', ''gnet_input'', ''goutput''} else {})
     \<union> (if mode > 1 then {''sgweights'', ''sgbiases''} else {})"
  unfolding keys_make_axes_grid keys_ax_params
  by (cases target; cases "mode > 0"; cases "mode > 1"; simp add: insert_commute)

lemma distinct_make_axes_grid:
  "distinct (map fst (make_axes_grid i l mode target :: 'a::zero img_dict))"
  unfolding keys_make_axes_grid keys_ax_params
  by (cases target; cases "mode > 0"; cases "mode > 1"; simp)

lemma mono_make_axes_grid:
  "mode \<le> mode' \<Longrightarrow>
   set (map fst (make_axes_grid i l mode target :: 'a::zero img_dict))
     \<subseteq> set (map fst (make_axes_grid i l mode' target :: 'a img_dict))"
  unfolding keys_make_axes_grid keys_ax_params
  by (cases target; cases "mode > 0"; cases "mode > 1"; cases "mode' > 0"; cases "mode' > 1";
      simp)

lemma data_make_axes_grid:
  assumes "map_of (make_axes_grid i l mode target :: 'a::zero img_dict) k = Some img"
  shows "img_data img =
           zeros (if k = ''input_'' then [1, i]
                  else if k \<in> {''weights'', ''gweights'', ''sgweights''} then [l, i]
                  else [l, 1])"
proof -
  from assms have "(k, img) \<in> set (make_axes_grid i l mode target)"
    by (rule map_of_SomeD)
  then obtain p where p: "(k, p) \<in> set (ax_params i l mode target)" and img: "img = new_image p"
    by (auto simp: make_axes_grid_eq)
  obtain c d t where pd: "p = (c, d, t)" by (cases p)
  from dims_ax_params[OF p[unfolded pd]] img pd show ?thesis
    by (auto simp: new_image_def split: if_splits)
qed

text \<open>
  Claim C8.  The panels of a grid are the five feed-forward panels, plus \<open>targets\<close>
  exactly when \<open>target\<close> holds, plus the four gradient panels exactly when
  \<open>mode > 0\<close>, plus the two cumulative-gradient panels exactly when \<open>mode > 1\<close>; each
  key occurs once, a larger mode never removes a panel, and every panel starts as the zero
  matrix of the shape declared for its key.
\<close>

theorem make_axes_grid_panels:
  "set (map fst (make_axes_grid inp_size layer_size mode target :: 'a::zero img_dict)) =
     {''input_'', ''weights'', ''biases'', ''net_input'', ''output''}
     \<union> (if target then {''targets''} else {})
     \<union> (if mode > 0 then {''gweights'', ''gbiases'', ''gnet_input'', ''goutput''} else {})
     \<union> (if mode > 1 then {''sgweights'', ''sgbiases''} else {})
   \<and> distinct (map fst (make_axes_grid inp_size layer_size mode target :: 'a img_dict))
   \<and> (\<forall>mode'. mode \<le> mode' \<longrightarrow>
         set (map fst (make_axes_grid inp_size layer_size mode target :: 'a img_dict))
         \<subseteq> set (map fst (make_axes_grid inp_size layer_size mode' target :: 'a img_dict)))
   \<and> (\<forall>k img. map_of (make_axes_grid inp_size layer_size mode target :: 'a img_dict) k = Some img \<longrightarrow>
         img_data img =
           zeros (if k = ''input_'' then [1, inp_size]
                  else if k \<in> {''weights'', ''gweights'', ''sgweights''} then [layer_size, inp_size]
                  else [layer_size, 1]))"
  apply (intro conjI allI impI)
     apply (rule keys_set_make_axes_grid)
    apply (rule distinct_make_axes_grid)
   apply (erule mono_make_axes_grid)
  apply (erule data_make_axes_grid)
  done

text \<open>The grid of a layer with 3 inputs and 2 units, in mode 1, with the target panel.\<close>

theorem make_axes_grid_panels_witness:
  "set (map fst (make_axes_grid 3 2 1 True :: int img_dict)) =
     {''input_'', ''weights'', ''biases'', ''net_input'', ''output''} \<union> {''targets''}
      \<union> {''gweights'', ''gbiases'', ''gnet_input'', ''goutput''} \<union> {}
   \<and> (1::int) \<le> 2
   \<and> set (map fst (make_axes_grid 3 2 1 True :: int img_dict))
       \<subseteq> set (map fst (make_axes_grid 3 2 2 True :: int img_dict))
   \<and> map_of (make_axes_grid 3 2 1 True :: int img_dict) ''gweights''
       = Some \<lparr>img_data = NDArray [2, 3] [0, 0, 0, 0, 0, 0], img_cmap = None, img_vmin = None,
               img_vmax = None, ax_coords = (11, 2), ax_title = ''W'' @ [CHR 0x27]\<rparr>
   \<and> img_data (the (map_of (make_axes_grid 3 2 1 True :: int img_dict) ''gweights'')) = zeros [2, 3]"
proof -
  let ?g = "make_axes_grid 3 2 1 True :: int img_dict"
  note t = make_axes_grid_panels[of 3 2 1 True, where 'a = int]
  have m: "map_of ?g ''gweights''
       = Some \<lparr>img_data = NDArray [2, 3] [0, 0, 0, 0, 0, 0], img_cmap = None, img_vmin = None,
               img_vmax = None, ax_coords = (11, 2), ax_title = ''W'' @ [CHR 0x27]\<rparr>"
    by (simp add: make_axes_grid_eq ax_params_cases gax_params_def new_image_def zeros_def
        numeral_eq_Suc)
  have le: "(1::int) \<le> 2" by simp
  have c: "(if True then {''targets''} else {}) = {''targets''}"
      "(if (1::int) > 0 then {''gweights'', ''gbiases'', ''gnet_input'', ''goutput''} else {})
        = {''gweights'', ''gbiases'', ''gnet_input'', ''goutput''}"
      "(if (1::int) > 1 then {''sgweights'', ''sgbiases''} else {}) = {}"
    by simp_all
  have keys: "set (map fst ?g) =
     {''input_'', ''weights'', ''biases'', ''net_input'', ''output''} \<union> {''targets''}
      \<union> {''gweights'', ''gbiases'', ''gnet_input'', ''goutput''} \<union> {}"
    using t[THEN conjunct1] unfolding c .
  have mono: "set (map fst ?g) \<subseteq> set (map fst (make_axes_grid 3 2 2 True :: int img_dict))"
    using t[THEN conjunct2, THEN conjunct2, THEN conjunct1, rule_format, OF le] .
  have dat: "img_data (the (map_of ?g ''gweights'')) = zeros [2, 3]"
    using t[THEN conjunct2, THEN conjunct2, THEN conjunct2, rule_format, OF m] m by simp
  show ?thesis
    apply (intro conjI)
        apply (rule keys)
       apply (rule le)
      apply (rule mono)
     apply (rule m)
    apply (rule dat)
    done
qed


section \<open>The pattern selector\<close>

text \<open>
  The options are a dictionary keyed by label, filled in list order: a label that occurs
  again takes the later index.
\<close>

lemma options_map_snoc:
  "options_map (xs @ [x]) = AList.update x (int (length xs)) (options_map xs)"
  by (simp add: options_map_def enumerate_append_eq)

lemma map_of_options_map_snoc:
  "map_of (options_map (xs @ [x])) = (map_of (options_map xs))(x \<mapsto> int (length xs))"
  by (simp add: options_map_snoc update_conv')

lemma map_of_options_map_last:
  "i < length xs \<Longrightarrow> (\<forall>j<length xs. i < j \<longrightarrow> xs ! j \<noteq> xs ! i) \<Longrightarrow>
   map_of (options_map xs) (xs ! i) = Some (int i)"
proof (induction xs rule: rev_induct)
  case Nil then show ?case by simp
next
  case (snoc x xs)
  show ?case
  proof (cases "i = length xs")
    case True
    then show ?thesis by (simp add: map_of_options_map_snoc)
  next
    case False
    with snoc.prems(1) have i: "i < length xs" by simp
    have ne: "x \<noteq> xs ! i"
      using snoc.prems(2)[rule_format, of "length xs"] i by (simp add: nth_append)
    have "\<forall>j<length xs. i < j \<longrightarrow> xs ! j \<noteq> xs ! i"
    proof (intro allI impI)
      fix j assume j: "j < length xs" "i < j"
      with snoc.prems(2)[rule_format, of j] i show "xs ! j \<noteq> xs ! i"
        by (simp add: nth_append)
    qed
    from snoc.IH[OF i this] ne i show ?thesis
      by (simp add: map_of_options_map_snoc nth_append)
  qed
qed

lemma keys_options_map_distinct:
  "distinct xs \<Longrightarrow> map fst (options_map xs) = xs"
proof (induction xs rule: rev_induct)
  case Nil then show ?case by (simp add: options_map_def)
next
  case (snoc x xs)
  then have "x \<notin> set (map fst (options_map xs))" by simp
  then show ?case using snoc
    by (simp add: options_map_snoc update_keys)
qed

text \<open>
  Claim C10 as stated fails when a label is repeated: with the options \<open>p, p\<close> the label
  at position 0 is mapped to 1.
\<close>

theorem pattern_widget_counterexample:
  "map_of (sel_options (pattern_widget [''p'', ''p''])) ([''p'', ''p''] ! 0) \<noteq> Some 0"
  by (simp add: pattern_widget_def options_map_def)

text \<open>
  Claim C10, amended.  For every non-empty list of pairwise distinct pattern options, the
  selector maps the label at each position \<open>i\<close> to the index \<open>i\<close>, lists the labels in
  the order given, starts at value 0, which is the index of the first pattern, and shows
  \<open>min(10, number of options)\<close> rows, so never more than 10.
\<close>

theorem pattern_widget_distinct_options:
  assumes "pattern_options \<noteq> []" and "distinct pattern_options"
  shows "(\<forall>i<length pattern_options.
            map_of (sel_options (pattern_widget pattern_options)) (pattern_options ! i) = Some (int i))
       \<and> map fst (sel_options (pattern_widget pattern_options)) = pattern_options
       \<and> sel_value (pattern_widget pattern_options) = 0
       \<and> map_of (sel_options (pattern_widget pattern_options)) (hd pattern_options)
           = Some (sel_value (pattern_widget pattern_options))
       \<and> sel_rows (pattern_widget pattern_options) = min 10 (int (length pattern_options))
       \<and> sel_rows (pattern_widget pattern_options) \<le> 10"
proof -
  have all: "map_of (options_map pattern_options) (pattern_options ! i) = Some (int i)"
    if "i < length pattern_options" for i
  proof (rule map_of_options_map_last[OF that], intro allI impI)
    fix j assume "j < length pattern_options" "i < j"
    with assms(2) that show "pattern_options ! j \<noteq> pattern_options ! i"
      by (simp add: nth_eq_iff_index_eq)
  qed
  have first: "map_of (options_map pattern_options) (hd pattern_options) = Some 0"
    using all[of 0] assms(1) by (simp add: hd_conv_nth)
  show ?thesis
    using all first keys_options_map_distinct[OF assms(2)]
    by (simp add: pattern_widget_def)
qed

text \<open>Three distinct labels.\<close>

theorem pattern_widget_distinct_options_witness:
  "[''p0'', ''p1'', ''p2''] \<noteq> [] \<and> distinct [''p0'', ''p1'', ''p2'']
   \<and> map_of (sel_options (pattern_widget [''p0'', ''p1'', ''p2''])) ''p2'' = Some 2
   \<and> sel_rows (pattern_widget [''p0'', ''p1'', ''p2'']) = 3"
proof -
  let ?opts = "[''p0'', ''p1'', ''p2'']"
  have ne: "?opts \<noteq> []" and d: "distinct ?opts" by simp_all
  note t = pattern_widget_distinct_options[OF ne d]
  have "map_of (sel_options (pattern_widget ?opts)) (?opts ! 2) = Some (int 2)"
    using t[THEN conjunct1, rule_format, of 2] by simp
  then have m: "map_of (sel_options (pattern_widget ?opts)) ''p2'' = Some 2" by simp
  have r: "sel_rows (pattern_widget ?opts) = 3"
    using t[THEN conjunct2, THEN conjunct2, THEN conjunct2, THEN conjunct2, THEN conjunct1] by simp
  from ne d m r show ?thesis by blast
qed


section \<open>The run-log dropdown\<close>

lemma map_of_foldl_update:
  "map_of (foldl (\<lambda>d f. AList.update f (g f) d) acc fs) k =
     (if k \<in> set fs then Some (g k) else map_of acc k)"
  by (induction fs arbitrary: acc) (auto simp: update_conv')

lemma keys_foldl_update:
  "fst ` set (foldl (\<lambda>d f. AList.update f (g f) d) acc fs) = fst ` set acc \<union> set fs"
proof -
  have "dom (map_of (foldl (\<lambda>d f. AList.update f (g f) d) acc fs)) = dom (map_of acc) \<union> set fs"
    by (auto simp: map_of_foldl_update dom_def)
  then show ?thesis by (simp add: dom_map_of_conv_image_fst)
qed

lemma foldl_update_distinct:
  "distinct fs \<Longrightarrow> set fs \<inter> fst ` set acc = {} \<Longrightarrow>
   foldl (\<lambda>d f. AList.update f (g f) d) acc fs = acc @ map (\<lambda>f. (f, g f)) fs"
proof (induction fs arbitrary: acc)
  case Nil then show ?case by simp
next
  case (Cons f fs)
  have "AList.update f (g f) acc = acc @ [(f, g f)]"
    using Cons.prems(2) by (induction acc) auto
  then show ?case using Cons by (auto simp: update_keys)
qed

text \<open>
  Claim C3.  When the listing of \<open>log_path\<close> has a name containing \<open>.pkl\<close>, the dropdown
  is built; its labels are exactly the listed names that contain \<open>.pkl\<close> (in listing
  order when the listing has no repetition), each mapped to \<open>joinp(log_path, name)\<close>, and
  its initial value is the path of the first such name.
\<close>

theorem make_logs_widget_offers_pkl_files:
  assumes "ls log_path = Inr listing"
    and "\<exists>f\<in>set listing. str_contains ''.pkl'' f"
  shows "\<exists>w. make_logs_widget ls jn log_path = Inr w
           \<and> fst ` set (dd_options w) = {f \<in> set listing. str_contains ''.pkl'' f}
           \<and> (\<forall>f\<in>set listing. str_contains ''.pkl'' f \<longrightarrow>
                 map_of (dd_options w) f = Some (jn log_path f))
           \<and> (distinct listing \<longrightarrow>
                 dd_options w =
                   map (\<lambda>f. (f, jn log_path f)) (filter (str_contains ''.pkl'') listing))
           \<and> dd_value w = jn log_path (hd (filter (str_contains ''.pkl'') listing))"
proof -
  let ?fs = "filter (str_contains ''.pkl'') listing"
  let ?runlogs = "foldl (\<lambda>d f. AList.update f (jn log_path f) d) [] ?fs"
  from assms(2) obtain f0 rest where fs: "?fs = f0 # rest"
    by (cases ?fs) (auto simp: filter_empty_conv)
  have look: "lookup ?runlogs f0 = Inr (jn log_path f0)"
    unfolding lookup_def map_of_foldl_update fs by simp
  let ?w = "\<lparr>dd_options = ?runlogs, dd_description = ''Run log: '',
             dd_value = jn log_path f0\<rparr>"
  have w: "make_logs_widget ls jn log_path = Inr ?w"
    unfolding make_logs_widget_def assms(1) using look
    by (simp add: Let_def py_index_0 fs)
  have keys: "fst ` set (dd_options ?w) = {f \<in> set listing. str_contains ''.pkl'' f}"
    by (simp add: keys_foldl_update)
  have vals: "\<forall>f\<in>set listing. str_contains ''.pkl'' f \<longrightarrow>
                 map_of (dd_options ?w) f = Some (jn log_path f)"
    by (simp add: map_of_foldl_update)
  have ord: "distinct listing \<longrightarrow> dd_options ?w = map (\<lambda>f. (f, jn log_path f)) ?fs"
    by (simp add: foldl_update_distinct)
  have v: "dd_value ?w = jn log_path (hd ?fs)"
    by (simp add: fs)
  from w keys vals ord v show ?thesis by blast
qed

text \<open>A directory with two run logs among three files.\<close>

theorem make_logs_widget_offers_pkl_files_witness:
  "(\<lambda>p. Inr [''notes.txt'', ''run1.pkl'', ''run2.pkl'']) ''logs''
     = (Inr [''notes.txt'', ''run1.pkl'', ''run2.pkl''] :: py_error + string list)
   \<and> (\<exists>f\<in>set [''notes.txt'', ''run1.pkl'', ''run2.pkl'']. str_contains ''.pkl'' f)
   \<and> distinct [''notes.txt'', ''run1.pkl'', ''run2.pkl'']
   \<and> make_logs_widget (\<lambda>p. Inr [''notes.txt'', ''run1.pkl'', ''run2.pkl''])
         (\<lambda>a b. a @ ''/'' @ b) ''logs''
       = Inr \<lparr>dd_options = [(''run1.pkl'', ''logs/run1.pkl''), (''run2.pkl'', ''logs/run2.pkl'')],
              dd_description = ''Run log: '', dd_value = ''logs/run1.pkl''\<rparr>"
proof -
  let ?listing = "[''notes.txt'', ''run1.pkl'', ''run2.pkl'']"
  let ?ls = "\<lambda>p :: string. (Inr ?listing :: py_error + string list)"
  let ?jn = "\<lambda>a b :: string. a @ ''/'' @ b"
  have h1: "?ls ''logs'' = Inr ?listing" by simp
  have h2: "\<exists>f\<in>set ?listing. str_contains ''.pkl'' f" by simp
  have h3: "distinct ?listing" by simp
  have fl: "filter (str_contains ''.pkl'') ?listing = [''run1.pkl'', ''run2.pkl'']" by simp
  from make_logs_widget_offers_pkl_files[of ?ls "''logs''" ?listing ?jn, OF h1 h2]
  obtain w where w: "make_logs_widget ?ls ?jn ''logs'' = Inr w"
    and o: "distinct ?listing \<longrightarrow>
            dd_options w = map (\<lambda>f. (f, ''logs'' @ ''/'' @ f)) (filter (str_contains ''.pkl'') ?listing)"
    and v: "dd_value w = ''logs'' @ ''/'' @ hd (filter (str_contains ''.pkl'') ?listing)"
    by blast
  have d: "dd_description w = ''Run log: ''"
    using w by (auto simp: make_logs_widget_def and_then_Inr_iff Let_def)
  have "w = \<lparr>dd_options = [(''run1.pkl'', ''logs/run1.pkl''), (''run2.pkl'', ''logs/run2.pkl'')],
              dd_description = ''Run log: '', dd_value = ''logs/run1.pkl''\<rparr>"
    using o h3 v d unfolding fl by (cases w) simp
  with w h1 h2 h3 show ?thesis by blast
qed


section \<open>The step slider\<close>

lemma step_widget_fields:
  "step_widget epochs = Inr w \<Longrightarrow>
     epochs \<noteq> [] \<and> sl_value w = hd epochs \<and> sl_min w = 0
     \<and> sl_max w = int (length epochs) - 1 \<and> sl_step w = 1"
  by (cases epochs) (auto simp: step_widget_def py_index_0)

text \<open>
  Claim C4 at a run log whose first logged epoch is 5 and second is 10: the slider ranges
  over the positions 0 and 1 in steps of 1, and the initial value it is given is the epoch
  number 5, which lies above the range.
\<close>

theorem step_widget_initial_value_is_epoch_number:
  "step_widget [5, 10]
     = Inr \<lparr>sl_value = 5, sl_min = 0, sl_max = 1, sl_step = 1,
            sl_description = ''Step index: ''\<rparr>
   \<and> sl_max \<lparr>sl_value = 5, sl_min = 0, sl_max = 1, sl_step = 1,
              sl_description = ''Step index: ''\<rparr>
       < sl_value \<lparr>sl_value = 5, sl_min = 0, sl_max = 1, sl_step = 1,
                  sl_description = ''Step index: ''\<rparr>"
  by (simp add: step_widget_def py_index_0)


section \<open>The steps of a call\<close>

lemma make_logs_widget_no_pkl:
  assumes "ls log_path = Inr listing" and "\<forall>f\<in>set listing. \<not> str_contains ''.pkl'' f"
  shows "make_logs_widget ls jn log_path = Inl IndexError"
proof -
  from assms(2) have "filter (str_contains ''.pkl'') listing = []"
    by (simp add: filter_empty_conv)
  then show ?thesis
    by (simp add: make_logs_widget_def assms(1) Let_def py_index_0)
qed

lemma collect_ldicts_needs_keys:
  "collect_ldicts snap targ names sl st = Inr res \<Longrightarrow> name \<in> set names \<Longrightarrow>
   \<exists>p. map_of snap name = Some (PyRef p)"
proof (induction names arbitrary: sl st)
  case Nil then show ?case by simp
next
  case (Cons n names)
  from Cons.prems(1) obtain p where p: "map_of snap n = Some (PyRef p)"
    and rest: "collect_ldicts snap targ names (AList.update n p sl)
                 (st(p := AList.update ''targets'' targ (st p))) = Inr res"
    by (auto split: option.splits pyobj.splits)
  show ?case
  proof (cases "name = n")
    case True with p show ?thesis by blast
  next
    case False
    with Cons.prems(2) have "name \<in> set names" by simp
    from Cons.IH[OF rest this] show ?thesis .
  qed
qed

lemma draw_layers_Inr_steps:
  assumes "draw_layers mpl load path img_dicts layer_names colormap vrange tind pind = Inr r"
  shows "\<exists>ld snap enum losses loss targ sl st shown imgs.
           load path = Inr ld \<and> py_index (snaps ld) tind = Inr snap
         \<and> map_of snap ''enum'' = Some enum \<and> map_of snap ''loss'' = Some losses
         \<and> subscript (objects ld) losses pind = Inr loss
         \<and> map_of snap ''target'' = Some targ
         \<and> collect_ldicts snap targ layer_names [] (objects ld) = Inr (sl, st)
         \<and> format_5f loss = Inr shown
         \<and> draw_img_dicts mpl sl st colormap vrange pind (zip img_dicts layer_names) = Inr imgs
         \<and> r = \<lparr>printed = (enum, shown), images = imgs, objects_after = st\<rparr>"
  using assms unfolding draw_layers_def and_then_Inr_iff lookup_Inr_iff
  by (auto simp: and_then_Inr_iff)

lemma draw_layers_missing_key:
  assumes "load path = Inr ld" and "py_index (snaps ld) tind = Inr snap"
    and "k \<in> {''enum'', ''loss'', ''target''} \<union> set layer_names" and "map_of snap k = None"
  shows "\<exists>e. draw_layers mpl load path img_dicts layer_names colormap vrange tind pind = Inl e"
proof (cases "draw_layers mpl load path img_dicts layer_names colormap vrange tind pind")
  case (Inl e) then show ?thesis by blast
next
  case (Inr r)
  from draw_layers_Inr_steps[OF Inr] assms(1,2) obtain enum losses targ sl st where
    s: "map_of snap ''enum'' = Some enum" "map_of snap ''loss'' = Some losses"
       "map_of snap ''target'' = Some targ"
       "collect_ldicts snap targ layer_names [] (objects ld) = Inr (sl, st)"
    by auto
  from assms(3) have "map_of snap k \<noteq> None"
  proof
    assume "k \<in> {''enum'', ''loss'', ''target''}"
    with s show ?thesis by auto
  next
    assume "k \<in> set layer_names"
    from collect_ldicts_needs_keys[OF s(4) this] show ?thesis by auto
  qed
  with assms(4) show ?thesis by contradiction
qed

lemma view_layers_Inr_steps:
  assumes "(view_layers h log_path mode :: py_error + 'a::zero view) = Inr v"
  shows "\<exists>run_widget epochs layer_names layer_dims axes_dicts step_w pattern_options.
           make_logs_widget (listdir h) (joinp h) log_path = Inr run_widget
         \<and> get_epochs h (dd_value run_widget) = Inr epochs
         \<and> get_layer_names h (dd_value run_widget) = Inr layer_names
         \<and> get_layer_dims h (dd_value run_widget) layer_names = Inr layer_dims
         \<and> make_axes_dicts layer_dims mode (zip layer_names (disp_targs layer_names))
             = Inr axes_dicts
         \<and> step_widget epochs = Inr step_w
         \<and> get_pattern_options h (dd_value run_widget) (sl_value step_w) = Inr pattern_options
         \<and> v = \<lparr>controls_dict =
                   [(''runlog_path'', DropdownW run_widget),
                    (''img_dicts'', FixedImgDicts axes_dicts),
                    (''layer_names'', FixedNames layer_names),
                    (''colormap'', DropdownW cmap_widget),
                    (''vrange'', IntRangeSliderW vrange_widget),
                    (''tind'', IntSliderW step_w),
                    (''pind'', SelectW (pattern_widget pattern_options))],
                 control_panel_rows =
                   [[''runlog_path'', ''pind''], [''colormap'', ''vrange''], [''tind'']]\<rparr>"
  using assms unfolding view_layers_def
  by (auto simp: and_then_Inr_iff Let_def)


section \<open>The target panel\<close>

lemma disp_targs_zip:
  "layer_names \<noteq> [] \<Longrightarrow>
   zip layer_names (disp_targs layer_names) =
     map (\<lambda>l. (l, False)) (butlast layer_names) @ [(last layer_names, True)]"
proof -
  assume ne: "layer_names \<noteq> []"
  then have split: "layer_names = butlast layer_names @ [last layer_names]" by simp
  have "zip (butlast layer_names @ [last layer_names]) (disp_targs layer_names) =
        map (\<lambda>l. (l, False)) (butlast layer_names) @ [(last layer_names, True)]"
    unfolding disp_targs_def by (simp add: zip_append zip_map2 zip_same_conv_map)
  with split show ?thesis by simp
qed

lemma length_zip_disp_targs:
  "length (zip layer_names (disp_targs layer_names)) = length layer_names"
  by (simp add: disp_targs_def)

lemma zip_disp_targs_nth:
  assumes "i < length layer_names"
  shows "zip layer_names (disp_targs layer_names) ! i
       = (layer_names ! i, i = length layer_names - 1)"
proof -
  from assms have ne: "layer_names \<noteq> []" by auto
  have len: "length (disp_targs layer_names) = length layer_names"
    using ne by (simp add: disp_targs_def)
  have "disp_targs layer_names ! i = (i = length layer_names - 1)"
    using assms by (auto simp: disp_targs_def nth_append)
  with assms len show ?thesis by simp
qed

lemma make_axes_dicts_args:
  "make_axes_dicts layer_dims mode ps = Inr grids \<Longrightarrow>
   length grids = length ps \<and>
   (\<forall>i<length ps. \<exists>dims inp_size layer_size.
        map_of layer_dims (fst (ps ! i)) = Some dims
      \<and> py_index dims 0 = Inr inp_size \<and> py_index dims 1 = Inr layer_size
      \<and> grids ! i = make_axes_grid inp_size layer_size mode (snd (ps ! i)))"
proof (induction ps arbitrary: grids)
  case Nil then show ?case by simp
next
  case (Cons p ps)
  obtain name dt where p: "p = (name, dt)" by (cases p)
  from Cons.prems p obtain dims a b gs where
    d: "map_of layer_dims name = Some dims" "py_index dims 0 = Inr a" "py_index dims 1 = Inr b"
    and gs: "make_axes_dicts layer_dims mode ps = Inr gs"
    and grids: "grids = make_axes_grid a b mode dt # gs"
    by (auto simp: and_then_Inr_iff lookup_Inr_iff)
  from Cons.IH[OF gs] have len: "length gs = length ps" and
    ih: "\<forall>i<length ps. \<exists>dims inp_size layer_size.
            map_of layer_dims (fst (ps ! i)) = Some dims
          \<and> py_index dims 0 = Inr inp_size \<and> py_index dims 1 = Inr layer_size
          \<and> gs ! i = make_axes_grid inp_size layer_size mode (snd (ps ! i))"
    by auto
  show ?case
  proof (intro conjI allI impI)
    show "length grids = length (p # ps)" using len grids by simp
    fix i assume i: "i < length (p # ps)"
    show "\<exists>dims inp_size layer_size.
            map_of layer_dims (fst ((p # ps) ! i)) = Some dims
          \<and> py_index dims 0 = Inr inp_size \<and> py_index dims 1 = Inr layer_size
          \<and> grids ! i = make_axes_grid inp_size layer_size mode (snd ((p # ps) ! i))"
    proof (cases i)
      case 0
      with d grids p show ?thesis by auto
    next
      case (Suc j)
      with i have "j < length ps" by simp
      with ih Suc grids show ?thesis by simp
    qed
  qed
qed

lemma targets_key_iff:
  "''targets'' \<in> set (map fst (make_axes_grid i l mode target :: 'a::zero img_dict)) \<longleftrightarrow> target"
  unfolding keys_set_make_axes_grid by simp

text \<open>
  Claim C9.  Whenever \<open>view_layers\<close> returns, the grids it registers under \<open>img_dicts\<close>
  are one per layer name of the run log, in order; the grid of each layer is what
  \<open>_make_axes_grid\<close> returns on that layer's two sizes, the mode, and a target flag that
  is true for the last layer name and false for every other.  So a grid has a \<open>targets\<close>
  panel exactly when it is the last, and with at least one layer exactly one grid has it.
\<close>

theorem view_layers_targets_last_only:
  assumes "(view_layers h log_path mode :: py_error + 'a::zero view) = Inr v"
  shows "\<exists>run_w layer_names layer_dims grids.
           make_logs_widget (listdir h) (joinp h) log_path = Inr run_w
         \<and> get_layer_names h (dd_value run_w) = Inr layer_names
         \<and> get_layer_dims h (dd_value run_w) layer_names = Inr layer_dims
         \<and> map_of (controls_dict v) ''layer_names'' = Some (FixedNames layer_names)
         \<and> map_of (controls_dict v) ''img_dicts'' = Some (FixedImgDicts grids)
         \<and> length grids = length layer_names
         \<and> (\<forall>i<length layer_names. \<exists>dims inp_size layer_size.
                map_of layer_dims (layer_names ! i) = Some dims
              \<and> py_index dims 0 = Inr inp_size \<and> py_index dims 1 = Inr layer_size
              \<and> grids ! i
                  = make_axes_grid inp_size layer_size mode (i = length layer_names - 1)
              \<and> (''targets'' \<in> set (map fst (grids ! i))) = (i = length layer_names - 1))
         \<and> (layer_names \<noteq> [] \<longrightarrow>
              (\<exists>!i. i < length grids \<and> ''targets'' \<in> set (map fst (grids ! i))))"
proof -
  from view_layers_Inr_steps[OF assms] obtain run_w layer_names layer_dims grids
    where w: "make_logs_widget (listdir h) (joinp h) log_path = Inr run_w"
      and n: "get_layer_names h (dd_value run_w) = Inr layer_names"
      and d: "get_layer_dims h (dd_value run_w) layer_names = Inr layer_dims"
      and g: "make_axes_dicts layer_dims mode (zip layer_names (disp_targs layer_names))
               = Inr (grids :: 'a img_dict list)"
      and cn: "map_of (controls_dict v) ''layer_names'' = Some (FixedNames layer_names)"
      and cg: "map_of (controls_dict v) ''img_dicts'' = Some (FixedImgDicts grids)"
    by fastforce
  let ?ps = "zip layer_names (disp_targs layer_names)"
  from make_axes_dicts_args[OF g, unfolded length_zip_disp_targs]
  have len: "length grids = length layer_names"
    and args: "\<forall>i<length layer_names. \<exists>dims inp_size layer_size.
        map_of layer_dims (fst (?ps ! i)) = Some dims
      \<and> py_index dims 0 = Inr inp_size \<and> py_index dims 1 = Inr layer_size
      \<and> grids ! i = make_axes_grid inp_size layer_size mode (snd (?ps ! i))"
    by blast+
  have each: "\<forall>i<length layer_names. \<exists>dims inp_size layer_size.
                map_of layer_dims (layer_names ! i) = Some dims
              \<and> py_index dims 0 = Inr inp_size \<and> py_index dims 1 = Inr layer_size
              \<and> grids ! i
                  = make_axes_grid inp_size layer_size mode (i = length layer_names - 1)
              \<and> (''targets'' \<in> set (map fst (grids ! i))) = (i = length layer_names - 1)"
  proof (intro allI impI)
    fix i assume i: "i < length layer_names"
    from args i obtain dims a b where
      x: "map_of layer_dims (fst (?ps ! i)) = Some dims" "py_index dims 0 = Inr a"
         "py_index dims 1 = Inr b" "grids ! i = make_axes_grid a b mode (snd (?ps ! i))"
      by blast
    from x zip_disp_targs_nth[OF i] have
      y: "map_of layer_dims (layer_names ! i) = Some dims"
         "grids ! i = make_axes_grid a b mode (i = length layer_names - 1)"
      by simp_all
    from y(2) have "(''targets'' \<in> set (map fst (grids ! i))) = (i = length layer_names - 1)"
      by (simp only: targets_key_iff)
    with x(2,3) y show "\<exists>dims inp_size layer_size.
                map_of layer_dims (layer_names ! i) = Some dims
              \<and> py_index dims 0 = Inr inp_size \<and> py_index dims 1 = Inr layer_size
              \<and> grids ! i
                  = make_axes_grid inp_size layer_size mode (i = length layer_names - 1)
              \<and> (''targets'' \<in> set (map fst (grids ! i))) = (i = length layer_names - 1)"
      by blast
  qed
  have one: "\<exists>!i. i < length grids \<and> ''targets'' \<in> set (map fst (grids ! i))"
    if ne: "layer_names \<noteq> []"
  proof (rule ex1I[of _ "length layer_names - 1"])
    from ne have l: "length layer_names - 1 < length layer_names" by simp
    with each len show "length layer_names - 1 < length grids
        \<and> ''targets'' \<in> set (map fst (grids ! (length layer_names - 1)))"
      by auto
  next
    fix i assume "i < length grids \<and> ''targets'' \<in> set (map fst (grids ! i))"
    with each len show "i = length layer_names - 1" by auto
  qed
  from w n d cn cg len each one show ?thesis by blast
qed

text \<open>
  A run log with a hidden and an output layer: the hidden layer's grid has no target
  panel, the output layer's grid has one.
\<close>

theorem view_layers_targets_last_only_witness:
  "(view_layers
      \<lparr>listdir = (\<lambda>p. Inr [''run1.pkl'']), joinp = (\<lambda>a b. a @ ''/'' @ b),
       get_epochs = (\<lambda>p. Inr [0, 10]), get_layer_names = (\<lambda>p. Inr [''hidden'', ''output'']),
       get_layer_dims = (\<lambda>p ns. Inr [(''hidden'', [3, 2]), (''output'', [2, 1])]),
       get_pattern_options = (\<lambda>p t. Inr [''p0'', ''p1''])\<rparr> ''logs'' 0 :: py_error + int view)
     = Inr \<lparr>controls_dict =
              [(''runlog_path'',
                DropdownW \<lparr>dd_options = [(''run1.pkl'', ''logs/run1.pkl'')],
                           dd_description = ''Run log: '', dd_value = ''logs/run1.pkl''\<rparr>),
               (''img_dicts'',
                FixedImgDicts [make_axes_grid 3 2 0 False, make_axes_grid 2 1 0 True]),
               (''layer_names'', FixedNames [''hidden'', ''output'']),
               (''colormap'', DropdownW cmap_widget),
               (''vrange'', IntRangeSliderW vrange_widget),
               (''tind'', IntSliderW \<lparr>sl_value = 0, sl_min = 0, sl_max = 1, sl_step = 1,
                                      sl_description = ''Step index: ''\<rparr>),
               (''pind'', SelectW (pattern_widget [''p0'', ''p1'']))],
            control_panel_rows =
              [[''runlog_path'', ''pind''], [''colormap'', ''vrange''], [''tind'']]\<rparr>
   \<and> (0 :: nat) < length [''hidden'', ''output''] \<and> (1 :: nat) < length [''hidden'', ''output'']
   \<and> [''hidden'', ''output''] \<noteq> []
   \<and> ''targets'' \<notin> set (map fst (make_axes_grid 3 2 0 False :: int img_dict))
   \<and> ''targets'' \<in> set (map fst (make_axes_grid 2 1 0 True :: int img_dict))"
proof -
  let ?h = "\<lparr>listdir = (\<lambda>p. Inr [''run1.pkl'']), joinp = (\<lambda>a b. a @ ''/'' @ b),
       get_epochs = (\<lambda>p. Inr [0, 10]), get_layer_names = (\<lambda>p. Inr [''hidden'', ''output'']),
       get_layer_dims = (\<lambda>p ns. Inr [(''hidden'', [3, 2]), (''output'', [2, 1])]),
       get_pattern_options = (\<lambda>p t. Inr [''p0'', ''p1''])\<rparr>"
  let ?grids = "[make_axes_grid 3 2 0 False, make_axes_grid 2 1 0 True :: int img_dict]"
  let ?names = "[''hidden'', ''output'']"
  let ?v = "\<lparr>controls_dict =
              [(''runlog_path'',
                DropdownW \<lparr>dd_options = [(''run1.pkl'', ''logs/run1.pkl'')],
                           dd_description = ''Run log: '', dd_value = ''logs/run1.pkl''\<rparr>),
               (''img_dicts'', FixedImgDicts ?grids),
               (''layer_names'', FixedNames ?names),
               (''colormap'', DropdownW cmap_widget),
               (''vrange'', IntRangeSliderW vrange_widget),
               (''tind'', IntSliderW \<lparr>sl_value = 0, sl_min = 0, sl_max = 1, sl_step = 1,
                                      sl_description = ''Step index: ''\<rparr>),
               (''pind'', SelectW (pattern_widget [''p0'', ''p1'']))],
            control_panel_rows =
              [[''runlog_path'', ''pind''], [''colormap'', ''vrange''], [''tind'']]\<rparr>"
  have v: "(view_layers ?h ''logs'' 0 :: py_error + int view) = Inr ?v"
    by (simp add: view_layers_def make_logs_widget_def Let_def py_index_0 lookup_def disp_targs_def
        step_widget_def py_index_def norm_index_def)
  from view_layers_targets_last_only[OF v] obtain layer_names grids where
    cn: "map_of (controls_dict ?v) ''layer_names'' = Some (FixedNames layer_names)"
    and cg: "map_of (controls_dict ?v) ''img_dicts'' = Some (FixedImgDicts grids)"
    and each: "\<forall>i<length layer_names.
        (''targets'' \<in> set (map fst (grids ! i))) = (i = length layer_names - 1)"
    by blast
  from cn have names: "layer_names = ?names" by simp
  from cg have grids: "grids = ?grids" by simp
  have i0: "(0 :: nat) < length ?names" and i1: "(1 :: nat) < length ?names"
    and ne: "?names \<noteq> []" by simp_all
  have t0: "''targets'' \<notin> set (map fst (make_axes_grid 3 2 0 False :: int img_dict))"
    using each[rule_format, of 0] unfolding names grids by simp
  have t1: "''targets'' \<in> set (map fst (make_axes_grid 2 1 0 True :: int img_dict))"
    using each[rule_format, of 1] unfolding names grids by simp
  show ?thesis
    apply (intro conjI)
         apply (rule v)
        apply (rule i0)
       apply (rule i1)
      apply (rule ne)
     apply (rule t0)
    apply (rule t1)
    done
qed

section \<open>The wiring of the controls\<close>




lemma cmap_widget_options:
  "map fst (dd_options cmap_widget) =
     [''BrBG'', ''PRGn'', ''PiYG'', ''PuOr'', ''RdBu'', ''RdGy'', ''RdYlBu'', ''RdYlGn'',
      ''bwr'', ''coolwarm'', ''seismic'']"
  unfolding cmap_widget_def by code_simp




section \<open>The effect of \<open>_draw_layers\<close> on the loaded log\<close>

lemma layer_addrs_Cons:
  "layer_addrs snap (n # names) =
     (case map_of snap n of Some (PyRef p) \<Rightarrow> [p] | _ \<Rightarrow> []) @ layer_addrs snap names"
  by (simp add: layer_addrs_def)

lemma collect_ldicts_effect:
  "collect_ldicts snap targ names sl st = Inr (sl', st') \<Longrightarrow>
     (\<forall>p. st' p = (if p \<in> set (layer_addrs snap names)
                    then AList.update ''targets'' targ (st p) else st p))
   \<and> (\<forall>n\<in>set names. \<exists>p. map_of snap n = Some (PyRef p) \<and> map_of sl' n = Some p)
   \<and> (\<forall>n. n \<notin> set names \<longrightarrow> map_of sl' n = map_of sl n)"
proof (induction names arbitrary: sl st)
  case Nil
  then show ?case by (simp add: layer_addrs_def)
next
  case (Cons n names)
  from Cons.prems obtain p0 where p0: "map_of snap n = Some (PyRef p0)"
    and rest: "collect_ldicts snap targ names (AList.update n p0 sl)
                 (st(p0 := AList.update ''targets'' targ (st p0))) = Inr (sl', st')"
    by (auto split: option.splits pyobj.splits)
  note ih = Cons.IH[OF rest]
  have addrs: "set (layer_addrs snap (n # names)) = insert p0 (set (layer_addrs snap names))"
    by (simp add: layer_addrs_Cons p0)
  show ?case
  proof (intro conjI allI ballI impI)
    fix p
    show "st' p = (if p \<in> set (layer_addrs snap (n # names))
                    then AList.update ''targets'' targ (st p) else st p)"
      using ih[THEN conjunct1, rule_format, of p] unfolding addrs by simp
  next
    fix m assume m: "m \<in> set (n # names)"
    show "\<exists>p. map_of snap m = Some (PyRef p) \<and> map_of sl' m = Some p"
    proof (cases "m \<in> set names")
      case True
      with ih show ?thesis by blast
    next
      case False
      with m have mn: "m = n" by simp
      from ih False have "map_of sl' m = map_of (AList.update n p0 sl) m" by blast
      with mn p0 show ?thesis by (simp add: update_conv')
    qed
  next
    fix m assume m: "m \<notin> set (n # names)"
    then have "map_of sl' m = map_of (AList.update n p0 sl) m" using ih by simp
    with m show "map_of sl' m = map_of sl m" by (simp add: update_conv')
  qed
qed





section \<open>Arrays\<close>

lemma nth_concat_rows:
  assumes "j < c" and "i < r"
  shows "concat (map (\<lambda>j. map (g j) [0..<r]) [0..<c]) ! (j * r + i) = g j i"
  using assms(1)
proof (induction c)
  case 0 then show ?case by simp
next
  case (Suc c)
  have len: "length (concat (map (\<lambda>j. map (g j) [0..<r]) [0..<c])) = c * r"
    by (induction c) simp_all
  show ?case
  proof (cases "j = c")
    case True
    then show ?thesis using assms(2) len by (simp add: nth_append)
  next
    case False
    with Suc.prems have jc: "j < c" by simp
    then have "Suc j \<le> c" by simp
    then have "Suc j * r \<le> c * r" by (rule mult_le_mono1)
    with assms(2) have "j * r + i < c * r" by simp
    with Suc.IH[OF jc] len show ?thesis by (simp add: nth_append)
  qed
qed

text \<open>On a matrix, \<open>a.T\<close> is the matrix transpose: entry \<open>(j, i)\<close> of it is entry \<open>(i, j)\<close> of \<open>a\<close>.\<close>

lemma transpose_nd_matrix:
  assumes "shape a = [r, c]" and "i < r" and "j < c"
  shows "shape (transpose_nd a) = [c, r]"
    and "flat (transpose_nd a) ! (j * r + i) = flat a ! (i * c + j)"
proof -
  show "shape (transpose_nd a) = [c, r]" by (simp add: transpose_nd_def assms(1))
  have "flat (transpose_nd a)
      = concat (map (\<lambda>j. map (\<lambda>i. flat a ! (i * c + j)) [0..<r]) [0..<c])"
    by (simp add: transpose_nd_def assms(1) comp_def map_concat)
  then show "flat (transpose_nd a) ! (j * r + i) = flat a ! (i * c + j)"
    using nth_concat_rows[OF assms(3,2), of "\<lambda>j i. flat a ! (i * c + j)"] by simp
qed


lemma indices_iff: "ix \<in> set (indices s) \<longleftrightarrow> list_all2 (<) ix s"
proof (induction s arbitrary: ix)
  case Nil then show ?case by simp
next
  case (Cons n ns)
  show ?case
  proof (cases ix)
    case Nil then show ?thesis by auto
  next
    case (Cons i rest)
    have "i # rest \<in> set (indices (n # ns)) \<longleftrightarrow> i < n \<and> rest \<in> set (indices ns)"
      by auto
    then show ?thesis by (simp add: Cons Cons.IH del: indices.simps)
  qed
qed

lemma length_indices: "length (indices s) = prod_list s"
proof (induction s)
  case Nil then show ?case by simp
next
  case (Cons n ns)
  have "length (concat (map (\<lambda>i. map ((#) i) (indices ns)) [0..<n])) = n * length (indices ns)"
    by (induction n) (simp_all add: length_concat)
  then show ?case by (simp add: Cons.IH)
qed

lemma offset_less: "list_all2 (<) ix s \<Longrightarrow> offset s ix < prod_list s"
proof (induction s arbitrary: ix)
  case Nil then show ?case by simp
next
  case (Cons n ns)
  from Cons.prems obtain i rest where ix: "ix = i # rest" and i: "i < n"
    and r: "list_all2 (<) rest ns"
    by (cases ix) auto
  from Cons.IH[OF r] have o: "offset ns rest < prod_list ns" .
  have "i * prod_list ns + offset ns rest < i * prod_list ns + prod_list ns" using o by simp
  also have "\<dots> = (Suc i) * prod_list ns" by simp
  also have "\<dots> \<le> n * prod_list ns" using i by (intro mult_le_mono1) simp
  finally show ?case by (simp add: ix)
qed

lemma transpose_offset_less:
  assumes "wf_ndarray a" and "ix \<in> set (indices (rev (shape a)))"
  shows "offset (shape a) (rev ix) < length (flat a)"
proof -
  from assms(2) have "list_all2 (<) ix (rev (shape a))" by (simp add: indices_iff)
  then have "list_all2 (<) (rev ix) (rev (rev (shape a)))" by (simp only: list_all2_rev)
  then have "list_all2 (<) (rev ix) (shape a)" by simp
  from offset_less[OF this] assms(1) show ?thesis by (simp add: wf_ndarray_def)
qed

lemma shape_map_ndarray_elems [simp]: "shape (map_ndarray_elems f a) = shape a"
  by (simp add: map_ndarray_elems_def)

lemma flat_map_ndarray_elems [simp]: "flat (map_ndarray_elems f a) = map f (flat a)"
  by (simp add: map_ndarray_elems_def)

lemma ndim_map_ndarray_elems [simp]: "ndim (map_ndarray_elems f a) = ndim a"
  by (simp add: ndim_def)

lemma wf_map_ndarray_elems [simp]: "wf_ndarray (map_ndarray_elems f a) = wf_ndarray a"
  by (simp add: wf_ndarray_def)

lemma wf_transpose_nd: "wf_ndarray (transpose_nd a)"
  by (simp add: wf_ndarray_def transpose_nd_def length_indices)

lemma shape_transpose_nd [simp]: "shape (transpose_nd a) = rev (shape a)"
  by (simp add: transpose_nd_def)

lemma ndim_transpose_nd [simp]: "ndim (transpose_nd a) = ndim a"
  by (simp add: ndim_def)

lemma transpose_nd_map:
  assumes "wf_ndarray a"
  shows "transpose_nd (map_ndarray_elems f a) = map_ndarray_elems f (transpose_nd a)"
proof -
  have "map (\<lambda>ix. map f (flat a) ! offset (shape a) (rev ix)) (indices (rev (shape a)))
      = map (\<lambda>ix. f (flat a ! offset (shape a) (rev ix))) (indices (rev (shape a)))"
    by (rule map_cong[OF refl]) (simp add: transpose_offset_less[OF assms])
  then show ?thesis
    by (simp add: transpose_nd_def map_ndarray_elems_def comp_def)
qed

lemma set_transpose_nd:
  assumes "wf_ndarray a"
  shows "set (flat (transpose_nd a)) \<subseteq> set (flat a)"
  using transpose_offset_less[OF assms] by (auto simp: transpose_nd_def)

lemma expand_dims_axis1_map:
  "expand_dims_axis1 (map_ndarray_elems f a) = map_sum id (map_ndarray_elems f) (expand_dims_axis1 a)"
  by (simp add: expand_dims_axis1_def map_ndarray_elems_def split: list.splits)

lemma expand_dims_axis1_Inr:
  "expand_dims_axis1 a = Inr b \<Longrightarrow>
     flat b = flat a \<and> ndim b = Suc (ndim a) \<and> (wf_ndarray a \<longrightarrow> wf_ndarray b)"
  by (auto simp: expand_dims_axis1_def wf_ndarray_def ndim_def split: list.splits)

lemma getitem_map:
  "getitem (map_ndarray_elems f a) i = map_sum id (map_ndarray_elems f) (getitem a i)"
  by (simp add: getitem_def map_ndarray_elems_def take_map drop_map
      split: list.splits option.splits)

lemma norm_index_less: "norm_index n i = Some j \<Longrightarrow> j < n"
  by (auto simp: norm_index_def split: if_splits)

lemma getitem_Inr:
  assumes "getitem a i = Inr b"
  shows "set (flat b) \<subseteq> set (flat a) \<and> Suc (ndim b) = ndim a
       \<and> (wf_ndarray a \<longrightarrow> wf_ndarray b)"
proof -
  from assms obtain n ns j where sh: "shape a = n # ns" and j: "norm_index n i = Some j"
    and b: "b = NDArray ns (take (prod_list ns) (drop (j * prod_list ns) (flat a)))"
    by (auto simp: getitem_def split: list.splits option.splits)
  have sub: "set (flat b) \<subseteq> set (flat a)"
    unfolding b using set_take_subset set_drop_subset by fastforce
  have wf: "wf_ndarray b" if "wf_ndarray a"
  proof -
    from that sh have len: "length (flat a) = n * prod_list ns" by (simp add: wf_ndarray_def)
    from norm_index_less[OF j] have "Suc j \<le> n" by simp
    then have "Suc j * prod_list ns \<le> n * prod_list ns" by (rule mult_le_mono1)
    then have "prod_list ns \<le> length (flat a) - j * prod_list ns" using len by simp
    then show ?thesis by (simp add: wf_ndarray_def b)
  qed
  from sub wf sh b show ?thesis by (simp add: ndim_def)
qed



section \<open>The path of one tensor\<close>

lemma draw_array_Inr_iff:
  "draw_array k pind a = Inr b \<longleftrightarrow>
     (\<exists>d2. (if str_contains ''biases'' k
             then expand_dims_axis1 (if k = ''weights'' then transpose_nd a else a)
             else Inr (if k = ''weights'' then transpose_nd a else a)) = Inr d2
         \<and> (if ndim d2 > 2
             then \<exists>d3. getitem d2 pind = Inr d3
                      \<and> b = (if k \<noteq> ''input_'' then transpose_nd d3 else d3)
             else b = d2))"
proof -
  let ?e = "if str_contains ''biases'' k
             then expand_dims_axis1 (if k = ''weights'' then transpose_nd a else a)
             else Inr (if k = ''weights'' then transpose_nd a else a)"
  have t: "((if ndim d2 > 2
              then and_then (getitem d2 pind)
                     (\<lambda>d3. Inr (if k \<noteq> ''input_'' then transpose_nd d3 else d3))
              else Inr d2) = Inr b)
        = (if ndim d2 > 2
             then \<exists>d3. getitem d2 pind = Inr d3
                      \<and> b = (if k \<noteq> ''input_'' then transpose_nd d3 else d3)
             else b = d2)" for d2
    by (cases "ndim d2 > 2"; cases "getitem d2 pind") auto
  have "draw_array k pind a = and_then ?e (\<lambda>d2. if ndim d2 > 2
              then and_then (getitem d2 pind)
                     (\<lambda>d3. Inr (if k \<noteq> ''input_'' then transpose_nd d3 else d3))
              else Inr d2)"
    unfolding draw_array_def Let_def ..
  then show ?thesis
    by (simp only: and_then_Inr_iff t)
qed

lemma draw_array_values:
  assumes "wf_ndarray a" and "draw_array k pind a = Inr b"
  shows "set (flat b) \<subseteq> set (flat a) \<and> wf_ndarray b"
proof -
  let ?d1 = "if k = ''weights'' then transpose_nd a else a"
  have d1: "set (flat ?d1) \<subseteq> set (flat a) \<and> wf_ndarray ?d1"
  proof (cases "k = ''weights''")
    case True
    then show ?thesis using set_transpose_nd[OF assms(1)] wf_transpose_nd[of a] by simp
  next
    case False
    then show ?thesis using assms(1) by simp
  qed
  from assms(2)[unfolded draw_array_Inr_iff] obtain d2 where
    e: "(if str_contains ''biases'' k then expand_dims_axis1 ?d1 else Inr ?d1) = Inr d2"
    and rest: "if ndim d2 > 2
             then \<exists>d3. getitem d2 pind = Inr d3
                      \<and> b = (if k \<noteq> ''input_'' then transpose_nd d3 else d3)
             else b = d2"
    by blast
  have d2: "set (flat d2) \<subseteq> set (flat a) \<and> wf_ndarray d2"
  proof (cases "str_contains ''biases'' k")
    case True
    with e have "expand_dims_axis1 ?d1 = Inr d2" by simp
    from expand_dims_axis1_Inr[OF this] d1 show ?thesis by simp
  next
    case False
    with e have "d2 = ?d1" by simp
    with d1 show ?thesis by simp
  qed
  show ?thesis
  proof (cases "ndim d2 > 2")
    case False
    with rest have "b = d2" by simp
    with d2 show ?thesis by simp
  next
    case True
    with rest obtain d3 where g: "getitem d2 pind = Inr d3"
      and b: "b = (if k \<noteq> ''input_'' then transpose_nd d3 else d3)" by auto
    from getitem_Inr[OF g] d2 have d3: "set (flat d3) \<subseteq> set (flat a)" "wf_ndarray d3" by auto
    show ?thesis
    proof (cases "k = ''input_''")
      case True
      with b d3 show ?thesis by simp
    next
      case False
      with b have "b = transpose_nd d3" by simp
      with set_transpose_nd[OF d3(2)] wf_transpose_nd[of d3] d3(1) show ?thesis by auto
    qed
  qed
qed

lemma slice_step_map:
  assumes "wf_ndarray d2"
  shows "(if ndim (map_ndarray_elems f d2) > 2
          then and_then (getitem (map_ndarray_elems f d2) pind)
                 (\<lambda>d3. Inr (if k \<noteq> ''input_'' then transpose_nd d3 else d3))
          else Inr (map_ndarray_elems f d2))
       = map_sum id (map_ndarray_elems f)
           (if ndim d2 > 2
            then and_then (getitem d2 pind)
                   (\<lambda>d3. Inr (if k \<noteq> ''input_'' then transpose_nd d3 else d3))
            else Inr d2)"
proof (cases "ndim d2 > 2")
  case False
  then show ?thesis by simp
next
  case True
  show ?thesis
  proof (cases "getitem d2 pind")
    case (Inl e)
    with True show ?thesis by (simp add: getitem_map)
  next
    case (Inr d3)
    from getitem_Inr[OF Inr] assms have "wf_ndarray d3" by simp
    from transpose_nd_map[OF this, of f] Inr True show ?thesis by (simp add: getitem_map)
  qed
qed

lemma draw_array_map:
  assumes "wf_ndarray a"
  shows "draw_array k pind (map_ndarray_elems f a)
       = map_sum id (map_ndarray_elems f) (draw_array k pind a)"
proof -
  let ?d1 = "if k = ''weights'' then transpose_nd a else a"
  have wf1: "wf_ndarray ?d1" using assms wf_transpose_nd[of a] by simp
  have m1: "(if k = ''weights'' then transpose_nd (map_ndarray_elems f a) else map_ndarray_elems f a)
          = map_ndarray_elems f ?d1"
    by (simp add: transpose_nd_map[OF assms])
  let ?e = "\<lambda>d. if str_contains ''biases'' k then expand_dims_axis1 d else Inr d"
  have m2: "?e (map_ndarray_elems f ?d1) = map_sum id (map_ndarray_elems f) (?e ?d1)"
    by (simp add: expand_dims_axis1_map)
  show ?thesis
  proof (cases "?e ?d1")
    case (Inl e)
    then show ?thesis unfolding draw_array_def Let_def m1 m2 by simp
  next
    case (Inr d2)
    have "wf_ndarray d2"
    proof (cases "str_contains ''biases'' k")
      case True
      with Inr have "expand_dims_axis1 ?d1 = Inr d2" by simp
      from expand_dims_axis1_Inr[OF this] wf1 show ?thesis by simp
    next
      case False
      with Inr have "d2 = ?d1" by simp
      with wf1 show ?thesis by simp
    qed
    from slice_step_map[OF this, of f pind k] show ?thesis
      unfolding draw_array_def Let_def m1 m2 Inr by simp
  qed
qed

lemma not_biases_weights [simp]: "\<not> str_contains ''biases'' ''weights''"
  by simp

lemma not_biases_input [simp]: "\<not> str_contains ''biases'' ''input_''"
  by simp

lemma draw_array_weights:
  "draw_array ''weights'' pind a =
     (if ndim a > 2 then map_sum id transpose_nd (getitem (transpose_nd a) pind)
      else Inr (transpose_nd a))"
  by (cases "getitem (transpose_nd a) pind") (simp_all add: draw_array_def)

lemma draw_array_biases:
  assumes "str_contains ''biases'' k"
  shows "draw_array k pind a =
     and_then (expand_dims_axis1 a)
       (\<lambda>d. if ndim d > 2 then map_sum id transpose_nd (getitem d pind) else Inr d)"
proof -
  from assms have k: "k \<noteq> ''weights''" "k \<noteq> ''input_''" by auto
  have g: "and_then (getitem d pind) (\<lambda>d3. Inr (if k \<noteq> ''input_'' then transpose_nd d3 else d3))
        = map_sum id transpose_nd (getitem d pind)" for d :: "'a ndarray"
    using k by (cases "getitem d pind") simp_all
  show ?thesis unfolding draw_array_def Let_def g using assms k by simp
qed

lemma draw_array_input:
  "draw_array ''input_'' pind a = (if ndim a > 2 then getitem a pind else Inr a)"
  by (cases "getitem a pind") (simp_all add: draw_array_def)

lemma draw_array_other:
  assumes "k \<noteq> ''weights''" and "k \<noteq> ''input_''" and "\<not> str_contains ''biases'' k"
  shows "draw_array k pind a =
     (if ndim a > 2 then map_sum id transpose_nd (getitem a pind) else Inr a)"
  using assms by (cases "getitem a pind") (simp_all add: draw_array_def)

lemma draw_array_bias_vector:
  assumes "str_contains ''biases'' k" and "shape a = [n]"
  shows "draw_array k pind a = Inr (NDArray [n, 1] (flat a))"
  unfolding draw_array_biases[OF assms(1)]
  by (simp add: expand_dims_axis1_def assms(2) ndim_def)

lemma draw_data_Inr:
  "draw_data k pind v = Inr d \<Longrightarrow> \<exists>a. v = PyArr a \<and> draw_array k pind a = Inr d"
  by (cases v) (auto simp: draw_data_def split: if_splits)

lemma draw_img_dict_Inr:
  "draw_img_dict mpl ldict colormap vrange pind img_dict = Inr out \<Longrightarrow>
   list_all2 (\<lambda>(k, img) (k', img').
       k' = k
     \<and> (\<exists>a. map_of ldict k = Some (PyArr a) \<and> draw_array k pind a = Inr (img_data img'))
     \<and> set_data_raises mpl (img_data img') = None
     \<and> img' = img\<lparr>img_data := img_data img', img_cmap := Some colormap,
                   img_vmin := Some (fst vrange), img_vmax := Some (snd vrange)\<rparr>)
     img_dict out"
proof (induction img_dict arbitrary: out)
  case Nil then show ?case by simp
next
  case (Cons x xs)
  obtain k img where x: "x = (k, img)" by (cases x)
  from Cons.prems[unfolded x] obtain img' rest where
    i: "draw_img mpl ldict colormap vrange pind k img = Inr img'"
    and r: "draw_img_dict mpl ldict colormap vrange pind xs = Inr rest"
    and out: "out = (k, img') # rest"
    by (auto simp: and_then_Inr_iff)
  from i[unfolded draw_img_Inr_iff] obtain v d where
    v: "map_of ldict k = Some v" and d: "draw_data k pind v = Inr d"
    and sd: "set_data_raises mpl d = None"
    and img': "img' = img\<lparr>img_data := d, img_cmap := Some colormap,
                     img_vmin := Some (fst vrange), img_vmax := Some (snd vrange)\<rparr>"
    by blast
  from draw_data_Inr[OF d] v obtain a where
    a: "map_of ldict k = Some (PyArr a)" "draw_array k pind a = Inr d" by auto
  from Cons.IH[OF r] a sd show ?case unfolding x out img' by simp
qed

lemma draw_img_dicts_Inr:
  "draw_img_dicts mpl sl st colormap vrange pind zs = Inr outs \<Longrightarrow>
   list_all2 (\<lambda>(img_dict, name) out.
       \<exists>p. map_of sl name = Some p
          \<and> draw_img_dict mpl (st p) colormap vrange pind img_dict = Inr out) zs outs"
proof (induction zs arbitrary: outs)
  case Nil then show ?case by simp
next
  case (Cons z zs)
  obtain img_dict name where z: "z = (img_dict, name)" by (cases z)
  from Cons.prems[unfolded z] obtain p d ds where
    p: "map_of sl name = Some p"
    and d: "draw_img_dict mpl (st p) colormap vrange pind img_dict = Inr d"
    and r: "draw_img_dicts mpl sl st colormap vrange pind zs = Inr ds"
    and outs: "outs = d # ds"
    by (auto simp: and_then_Inr_iff lookup_Inr_iff)
  from Cons.IH[OF r] p d show ?case unfolding z outs by auto
qed


section \<open>What the images receive\<close>

lemma layer_addrs_member:
  "n \<in> set names \<Longrightarrow> map_of snap n = Some (PyRef p) \<Longrightarrow> p \<in> set (layer_addrs snap names)"
  by (induction names) (auto simp: layer_addrs_Cons)

lemma collect_ldicts_lookup:
  assumes "collect_ldicts snap targ names sl st = Inr (sl', st')" and "n \<in> set names"
    and "map_of sl' n = Some p"
  shows "map_of snap n = Some (PyRef p)
       \<and> map_of (st' p) = (map_of (st p))(''targets'' \<mapsto> targ)"
proof -
  from collect_ldicts_effect[OF assms(1)] assms(2) obtain p' where
    p': "map_of snap n = Some (PyRef p')" "map_of sl' n = Some p'"
    and st: "\<forall>q. st' q = (if q \<in> set (layer_addrs snap names)
                    then AList.update ''targets'' targ (st q) else st q)"
    by blast
  from p' assms(3) have pp: "p' = p" by simp
  from layer_addrs_member[OF assms(2) p'(1)] st pp
  have "st' p = AList.update ''targets'' targ (st p)" by simp
  with p'(1) pp show ?thesis by (simp add: update_conv')
qed

lemma draw_layers_images:
  assumes "draw_layers mpl load path img_dicts layer_names colormap vrange tind pind = Inr r"
  shows "\<exists>ld snap targ.
           load path = Inr ld \<and> py_index (snaps ld) tind = Inr snap
         \<and> map_of snap ''target'' = Some targ
         \<and> list_all2 (\<lambda>(img_dict, name) out.
               \<exists>p. map_of snap name = Some (PyRef p)
                  \<and> list_all2 (\<lambda>(k, img) (k', img').
                        k' = k
                      \<and> (\<exists>a. (if k = ''targets'' then Some targ else map_of (objects ld p) k)
                                = Some (PyArr a)
                             \<and> draw_array k pind a = Inr (img_data img')))
                      img_dict out)
             (zip img_dicts layer_names) (images r)"
proof -
  from draw_layers_Inr_steps[OF assms] obtain ld snap targ sl st imgs where
    l: "load path = Inr ld" and s: "py_index (snaps ld) tind = Inr snap"
    and t: "map_of snap ''target'' = Some targ"
    and c: "collect_ldicts snap targ layer_names [] (objects ld) = Inr (sl, st)"
    and d: "draw_img_dicts mpl sl st colormap vrange pind (zip img_dicts layer_names) = Inr imgs"
    and r: "images r = imgs"
    by auto
  have "list_all2 (\<lambda>(img_dict, name) out.
               \<exists>p. map_of snap name = Some (PyRef p)
                  \<and> list_all2 (\<lambda>(k, img) (k', img').
                        k' = k
                      \<and> (\<exists>a. (if k = ''targets'' then Some targ else map_of (objects ld p) k)
                                = Some (PyArr a)
                             \<and> draw_array k pind a = Inr (img_data img')))
                      img_dict out)
             (zip img_dicts layer_names) imgs"
  proof (rule list.rel_mono_strong[OF draw_img_dicts_Inr[OF d]])
    fix z out
    assume z: "z \<in> set (zip img_dicts layer_names)"
      and h: "(case z of (img_dict, name) \<Rightarrow> \<lambda>out.
               \<exists>p. map_of sl name = Some p
                  \<and> draw_img_dict mpl (st p) colormap vrange pind img_dict = Inr out) out"
    obtain img_dict name where zz: "z = (img_dict, name)" by (cases z)
    from z zz have n: "name \<in> set layer_names" by (auto dest: set_zip_rightD)
    from h zz obtain p where p: "map_of sl name = Some p"
      and dd: "draw_img_dict mpl (st p) colormap vrange pind img_dict = Inr out" by auto
    from collect_ldicts_lookup[OF c n p] have
      sp: "map_of snap name = Some (PyRef p)"
      and stp: "map_of (st p) = (map_of (objects ld p))(''targets'' \<mapsto> targ)" by auto
    have "list_all2 (\<lambda>(k, img) (k', img').
                        k' = k
                      \<and> (\<exists>a. (if k = ''targets'' then Some targ else map_of (objects ld p) k)
                                = Some (PyArr a)
                             \<and> draw_array k pind a = Inr (img_data img')))
                      img_dict out"
      by (rule list_all2_mono[OF draw_img_dict_Inr[OF dd]]) (auto simp: stp)
    with sp show "(case z of (img_dict, name) \<Rightarrow> \<lambda>out.
               \<exists>p. map_of snap name = Some (PyRef p)
                  \<and> list_all2 (\<lambda>(k, img) (k', img').
                        k' = k
                      \<and> (\<exists>a. (if k = ''targets'' then Some targ else map_of (objects ld p) k)
                                = Some (PyArr a)
                             \<and> draw_array k pind a = Inr (img_data img')))
                      img_dict out) out"
      unfolding zz by auto
  qed
  with l s t r show ?thesis by blast
qed

text \<open>
  Claim C1.  On every call of \<open>_draw_layers\<close> that returns, the data of each image is the
  tensor loaded under the image's key (the snapshot's \<open>target\<close> under \<open>targets\<close>) after
  \<open>draw_array\<close>, and \<open>draw_array\<close> is: under \<open>weights\<close> a transposition; under a key
  containing \<open>biases\<close> a new second axis of length 1; then, with more than two axes, the
  slice at \<open>pind\<close>, transposed unless the key is \<open>input_\<close>; nothing otherwise.  No value is
  computed: the path commutes with every function applied to the elements, and every
  element shown is an element of the loaded tensor.
\<close>

theorem draw_layers_only_reshapes:
  "(draw_layers mpl load path img_dicts layer_names colormap vrange tind pind = Inr r \<longrightarrow>
      (\<exists>ld snap targ.
           load path = Inr ld \<and> py_index (snaps ld) tind = Inr snap
         \<and> map_of snap ''target'' = Some targ
         \<and> list_all2 (\<lambda>(img_dict, name) out.
               \<exists>p. map_of snap name = Some (PyRef p)
                  \<and> list_all2 (\<lambda>(k, img) (k', img').
                        k' = k
                      \<and> (\<exists>a. (if k = ''targets'' then Some targ else map_of (objects ld p) k)
                                = Some (PyArr a)
                             \<and> draw_array k pind a = Inr (img_data img')))
                      img_dict out)
             (zip img_dicts layer_names) (images r)))
   \<and> draw_array ''weights'' pind a =
       (if ndim a > 2 then map_sum id transpose_nd (getitem (transpose_nd a) pind)
        else Inr (transpose_nd a))
   \<and> (str_contains ''biases'' k \<longrightarrow>
        draw_array k pind a =
          and_then (expand_dims_axis1 a)
            (\<lambda>d. if ndim d > 2 then map_sum id transpose_nd (getitem d pind) else Inr d))
   \<and> draw_array ''input_'' pind a = (if ndim a > 2 then getitem a pind else Inr a)
   \<and> (k \<noteq> ''weights'' \<and> k \<noteq> ''input_'' \<and> \<not> str_contains ''biases'' k \<longrightarrow>
        draw_array k pind a =
          (if ndim a > 2 then map_sum id transpose_nd (getitem a pind) else Inr a))
   \<and> (wf_ndarray a \<longrightarrow>
        draw_array k pind (map_ndarray_elems f a)
          = map_sum id (map_ndarray_elems f) (draw_array k pind a))
   \<and> (wf_ndarray a \<and> draw_array k pind a = Inr b \<longrightarrow> set (flat b) \<subseteq> set (flat a))"
proof (intro conjI impI)
  assume "draw_layers mpl load path img_dicts layer_names colormap vrange tind pind = Inr r"
  then show "\<exists>ld snap targ.
           load path = Inr ld \<and> py_index (snaps ld) tind = Inr snap
         \<and> map_of snap ''target'' = Some targ
         \<and> list_all2 (\<lambda>(img_dict, name) out.
               \<exists>p. map_of snap name = Some (PyRef p)
                  \<and> list_all2 (\<lambda>(k, img) (k', img').
                        k' = k
                      \<and> (\<exists>a. (if k = ''targets'' then Some targ else map_of (objects ld p) k)
                                = Some (PyArr a)
                             \<and> draw_array k pind a = Inr (img_data img')))
                      img_dict out)
             (zip img_dicts layer_names) (images r)"
    by (rule draw_layers_images)
next
  show "draw_array ''weights'' pind a =
       (if ndim a > 2 then map_sum id transpose_nd (getitem (transpose_nd a) pind)
        else Inr (transpose_nd a))"
    by (rule draw_array_weights)
next
  assume "str_contains ''biases'' k"
  then show "draw_array k pind a =
          and_then (expand_dims_axis1 a)
            (\<lambda>d. if ndim d > 2 then map_sum id transpose_nd (getitem d pind) else Inr d)"
    by (rule draw_array_biases)
next
  show "draw_array ''input_'' pind a = (if ndim a > 2 then getitem a pind else Inr a)"
    by (rule draw_array_input)
next
  assume "k \<noteq> ''weights'' \<and> k \<noteq> ''input_'' \<and> \<not> str_contains ''biases'' k"
  then show "draw_array k pind a =
          (if ndim a > 2 then map_sum id transpose_nd (getitem a pind) else Inr a)"
    using draw_array_other by blast
next
  assume "wf_ndarray a"
  then show "draw_array k pind (map_ndarray_elems f a)
          = map_sum id (map_ndarray_elems f) (draw_array k pind a)"
    by (rule draw_array_map)
next
  assume "wf_ndarray a \<and> draw_array k pind a = Inr b"
  then show "set (flat b) \<subseteq> set (flat a)"
    using draw_array_values by blast
qed

text \<open>
  One layer with a 3-by-2 weight matrix, a bias vector and a net input logged for two
  patterns, drawn at the second pattern.
\<close>

theorem draw_layers_only_reshapes_witness:
  "draw_layers two_axes_plotting
     (\<lambda>p. Inr \<lparr>snaps = [[(''enum'', PyInt 0), (''loss'', PyArr (NDArray [2] [1, 2 :: int])),
                         (''target'', PyArr (NDArray [2, 1] [7, 8])), (''out'', PyRef 0)]],
                objects = (\<lambda>q. [(''weights'', PyArr (NDArray [3, 2] [1, 2, 3, 4, 5, 6])),
                                 (''net_input'', PyArr (NDArray [2, 1, 2] [1, 2, 3, 4]))])\<rparr>)
     ''logs/run1.pkl''
     [[(''weights'', new_image ((0, 2), (2, 3), ''W'')),
       (''net_input'', new_image ((4, 2), (2, 1), ''net''))]]
     [''out''] ''coolwarm'' (- 1, 1) 0 1
   = Inr \<lparr>printed = (PyInt 0, ElemNum 2),
          images =
            [[(''weights'',
               \<lparr>img_data = NDArray [2, 3] [1, 3, 5, 2, 4, 6], img_cmap = Some ''coolwarm'',
                img_vmin = Some (- 1), img_vmax = Some 1, ax_coords = (0, 2), ax_title = ''W''\<rparr>),
              (''net_input'',
               \<lparr>img_data = NDArray [2, 1] [3, 4], img_cmap = Some ''coolwarm'',
                img_vmin = Some (- 1), img_vmax = Some 1, ax_coords = (4, 2),
                ax_title = ''net''\<rparr>)]],
          objects_after =
            (\<lambda>q. [(''weights'', PyArr (NDArray [3, 2] [1, 2, 3, 4, 5, 6])),
                   (''net_input'', PyArr (NDArray [2, 1, 2] [1, 2, 3, 4]))])
              (0 := [(''weights'', PyArr (NDArray [3, 2] [1, 2, 3, 4, 5, 6])),
                     (''net_input'', PyArr (NDArray [2, 1, 2] [1, 2, 3, 4])),
                     (''targets'', PyArr (NDArray [2, 1] [7, 8]))])\<rparr>
   \<and> draw_array ''weights'' 1 (NDArray [3, 2] [1, 2, 3, 4, 5, 6 :: int])
       = Inr (NDArray [2, 3] [1, 3, 5, 2, 4, 6])
   \<and> str_contains ''biases'' ''gbiases''
   \<and> draw_array ''gbiases'' 1 (NDArray [2] [9, 10 :: int]) = Inr (NDArray [2, 1] [9, 10])
   \<and> draw_array ''net_input'' 1 (NDArray [2, 1, 2] [1, 2, 3, 4 :: int]) = Inr (NDArray [2, 1] [3, 4])
   \<and> wf_ndarray (NDArray [3, 2] [1, 2, 3, 4, 5, 6 :: int])
   \<and> draw_array ''weights'' 1 (map_ndarray_elems uminus (NDArray [3, 2] [1, 2, 3, 4, 5, 6 :: int]))
       = Inr (NDArray [2, 3] [- 1, - 3, - 5, - 2, - 4, - 6])
   \<and> set [3, 4 :: int] \<subseteq> set [1, 2, 3, 4]"
proof -
  let ?W = "NDArray [3, 2] [1, 2, 3, 4, 5, 6 :: int]"
  let ?N = "NDArray [2, 1, 2] [1, 2, 3, 4 :: int]"
  let ?B = "NDArray [2] [9, 10 :: int]"
  have tW: "transpose_nd ?W = NDArray [2, 3] [1, 3, 5, 2, 4, 6]" by code_simp
  have gN: "getitem ?N 1 = Inr (NDArray [1, 2] [3, 4])" by code_simp
  have tN: "transpose_nd (NDArray [1, 2] [3, 4 :: int]) = NDArray [2, 1] [3, 4]" by code_simp
  have gL: "getitem (NDArray [2] [1, 2 :: int]) 1 = Inr (NDArray [] [2])" by code_simp
  have eB: "expand_dims_axis1 ?B = Inr (NDArray [2, 1] [9, 10])" by code_simp
  have wfW: "wf_ndarray ?W" and wfN: "wf_ndarray ?N" by (simp_all add: wf_ndarray_def)
  have sb: "str_contains ''biases'' ''gbiases''" by simp
  have kn: "''net_input'' \<noteq> ''weights'' \<and> ''net_input'' \<noteq> ''input_''
            \<and> \<not> str_contains ''biases'' ''net_input''" by simp
  have dW: "draw_array ''weights'' 1 ?W = Inr (NDArray [2, 3] [1, 3, 5, 2, 4, 6])"
    using draw_layers_only_reshapes[where a = ?W and pind = 1,
        THEN conjunct2, THEN conjunct1]
    by (simp add: tW ndim_def del: One_nat_def)
  have dB: "draw_array ''gbiases'' 1 ?B = Inr (NDArray [2, 1] [9, 10])"
    using draw_layers_only_reshapes[where a = ?B and pind = 1 and k = "''gbiases''",
        THEN conjunct2, THEN conjunct2, THEN conjunct1] sb
    by (simp add: eB ndim_def del: One_nat_def)
  have dN: "draw_array ''net_input'' 1 ?N = Inr (NDArray [2, 1] [3, 4])"
    using draw_layers_only_reshapes[where a = ?N and pind = 1 and k = "''net_input''",
        THEN conjunct2, THEN conjunct2, THEN conjunct2, THEN conjunct2, THEN conjunct1] kn
    by (simp add: gN tN ndim_def del: One_nat_def)
  have mW: "draw_array ''weights'' 1 (map_ndarray_elems uminus ?W)
       = Inr (NDArray [2, 3] [- 1, - 3, - 5, - 2, - 4, - 6])"
    using draw_layers_only_reshapes[where a = ?W and pind = 1 and k = "''weights''"
        and f = uminus,
        THEN conjunct2, THEN conjunct2, THEN conjunct2, THEN conjunct2, THEN conjunct2,
        THEN conjunct1] wfW
    by (simp add: dW map_ndarray_elems_def del: One_nat_def)
  have sN: "set [3, 4 :: int] \<subseteq> set [1, 2, 3, 4]"
    using draw_layers_only_reshapes[where a = ?N and pind = 1 and k = "''net_input''"
        and b = "NDArray [2, 1] [3, 4]",
        THEN conjunct2, THEN conjunct2, THEN conjunct2, THEN conjunct2, THEN conjunct2,
        THEN conjunct2] wfN dN
    by simp
  have v: "draw_layers two_axes_plotting
     (\<lambda>p. Inr \<lparr>snaps = [[(''enum'', PyInt 0), (''loss'', PyArr (NDArray [2] [1, 2 :: int])),
                         (''target'', PyArr (NDArray [2, 1] [7, 8])), (''out'', PyRef 0)]],
                objects = (\<lambda>q. [(''weights'', PyArr ?W), (''net_input'', PyArr ?N)])\<rparr>)
     ''logs/run1.pkl''
     [[(''weights'', new_image ((0, 2), (2, 3), ''W'')),
       (''net_input'', new_image ((4, 2), (2, 1), ''net''))]]
     [''out''] ''coolwarm'' (- 1, 1) 0 1
   = Inr \<lparr>printed = (PyInt 0, ElemNum 2),
          images =
            [[(''weights'',
               \<lparr>img_data = NDArray [2, 3] [1, 3, 5, 2, 4, 6], img_cmap = Some ''coolwarm'',
                img_vmin = Some (- 1), img_vmax = Some 1, ax_coords = (0, 2), ax_title = ''W''\<rparr>),
              (''net_input'',
               \<lparr>img_data = NDArray [2, 1] [3, 4], img_cmap = Some ''coolwarm'',
                img_vmin = Some (- 1), img_vmax = Some 1, ax_coords = (4, 2),
                ax_title = ''net''\<rparr>)]],
          objects_after =
            (\<lambda>q. [(''weights'', PyArr ?W), (''net_input'', PyArr ?N)])
              (0 := [(''weights'', PyArr ?W), (''net_input'', PyArr ?N),
                     (''targets'', PyArr (NDArray [2, 1] [7, 8]))])\<rparr>"
    by (simp add: draw_layers_def py_index_0 lookup_def subscript_def gL
        format_5f_def draw_data_def dW dN new_image_def draw_img_def raise_if_def
        two_axes_plotting_def ndim_def del: One_nat_def)
  show ?thesis
    apply (intro conjI)
           apply (rule v)
          apply (rule dW)
         apply (rule sb)
        apply (rule dB)
       apply (rule dN)
      apply (rule wfW)
     apply (rule mW)
    apply (rule sN)
    done
qed


section \<open>Totality under the collaborator contract\<close>






lemma loss_shown:
  assumes "shape losses = [n]" and "wf_ndarray losses" and "0 \<le> pind" and "pind < int n"
  shows "\<exists>x. and_then (subscript st (PyArr losses) pind) format_5f = Inr (ElemNum x)"
proof -
  from assms(1,2) have len: "length (flat losses) = n" by (simp add: wf_ndarray_def)
  from assms(3,4) have ni: "norm_index n pind = Some (nat pind)" by (simp add: norm_index_def)
  from assms(3,4) len have "nat pind < length (flat losses)" by simp
  then have "take 1 (drop (nat pind) (flat losses)) = [flat losses ! nat pind]"
    by (simp add: take_Suc_conv_app_nth Cons_nth_drop_Suc[symmetric])
  then have "getitem losses pind = Inr (NDArray [] [flat losses ! nat pind])"
    by (simp add: getitem_def assms(1) ni)
  then show ?thesis by (simp add: subscript_def format_5f_def)
qed





section \<open>Exceptions\<close>

lemma and_then_pair_Inl_iff:
  "and_then r (\<lambda>(a, b). f a b) = Inl e \<longleftrightarrow>
     r = Inl e \<or> (\<exists>a b. r = Inr (a, b) \<and> f a b = Inl e)"
  by (cases r) (auto simp: and_then_def)

lemma norm_index_None_iff: "norm_index n i = None \<longleftrightarrow> i < - int n \<or> int n \<le> i"
  by (auto simp: norm_index_def)

lemma py_index_Inl_iff:
  "py_index xs i = Inl e \<longleftrightarrow> e = IndexError \<and> (i < - int (length xs) \<or> int (length xs) \<le> i)"
  by (auto simp: py_index_def norm_index_None_iff[symmetric] split: option.splits)

lemma getitem_Inl_iff:
  "getitem a i = Inl e \<longleftrightarrow>
     e = IndexError \<and> (shape a = [] \<or> i < - int (hd (shape a)) \<or> int (hd (shape a)) \<le> i)"
  by (cases "shape a")
     (auto simp: getitem_def norm_index_None_iff[symmetric] split: option.splits)

lemma expand_dims_axis1_Inl_iff:
  "expand_dims_axis1 a = Inl e \<longleftrightarrow> shape a = [] \<and> e = AxisError"
  by (auto simp: expand_dims_axis1_def split: list.splits)

lemma subscript_Inl_iff:
  "subscript st v i = Inl e \<longleftrightarrow>
     (\<exists>a. v = PyArr a \<and> getitem a i = Inl e)
   \<or> (\<exists>n. v = PyInt n \<and> e = TypeError)
   \<or> (\<exists>p. v = PyRef p \<and> e = KeyError (Inr i))"
  by (cases v) (auto simp: subscript_def and_then_Inl_iff)

lemma format_5f_Inl_iff:
  "format_5f v = Inl e \<longleftrightarrow>
     e = TypeError \<and> (\<exists>a. v = PyArr a \<and> (shape a \<noteq> [] \<or> length (flat a) \<noteq> 1) \<or> (\<exists>p. v = PyRef p))"
  by (cases v) (auto simp: format_5f_def split: list.splits)

lemma draw_array_Inl_iff:
  "draw_array k pind a = Inl e \<longleftrightarrow>
     (str_contains ''biases'' k
        \<and> expand_dims_axis1 (if k = ''weights'' then transpose_nd a else a) = Inl e)
   \<or> (\<exists>d2. (if str_contains ''biases'' k
              then expand_dims_axis1 (if k = ''weights'' then transpose_nd a else a)
              else Inr (if k = ''weights'' then transpose_nd a else a)) = Inr d2
          \<and> ndim d2 > 2 \<and> getitem d2 pind = Inl e)"
proof -
  have t: "((if ndim d2 > 2
              then and_then (getitem d2 pind)
                     (\<lambda>d3. Inr (if k \<noteq> ''input_'' then transpose_nd d3 else d3))
              else Inr d2) = Inl e)
        = (ndim d2 > 2 \<and> getitem d2 pind = Inl e)" for d2
    by (cases "ndim d2 > 2"; cases "getitem d2 pind") auto
  have d: "draw_array k pind a =
      and_then (if str_contains ''biases'' k
                then expand_dims_axis1 (if k = ''weights'' then transpose_nd a else a)
                else Inr (if k = ''weights'' then transpose_nd a else a))
        (\<lambda>d2. if ndim d2 > 2
              then and_then (getitem d2 pind)
                     (\<lambda>d3. Inr (if k \<noteq> ''input_'' then transpose_nd d3 else d3))
              else Inr d2)"
    unfolding draw_array_def Let_def ..
  show ?thesis
    unfolding d and_then_Inl_iff t by (cases "str_contains ''biases'' k") auto
qed

lemma draw_data_Inl_iff:
  "draw_data k pind v = Inl e \<longleftrightarrow>
     (\<exists>a. v = PyArr a \<and> draw_array k pind a = Inl e)
   \<or> ((\<exists>n. v = PyInt n) \<or> (\<exists>p. v = PyRef p))
      \<and> e = (if k = ''weights'' then AttributeError
              else if str_contains ''biases'' k then AxisError else AttributeError)"
  by (cases v) (auto simp: draw_data_def)

lemma draw_img_Inl_iff:
  "draw_img mpl ldict colormap vrange pind k img = Inl e \<longleftrightarrow>
     (map_of ldict k = None \<and> e = KeyError (Inl k))
   \<or> (\<exists>v. map_of ldict k = Some v
        \<and> (draw_data k pind v = Inl e
           \<or> (\<exists>d. draw_data k pind v = Inr d
                \<and> (set_data_raises mpl d = Some e
                   \<or> (set_data_raises mpl d = None \<and> get_cmap_raises mpl colormap = Some e)))))"
  unfolding draw_img_def and_then_Inl_iff lookup_Inl_iff lookup_Inr_iff raise_if_Inl_iff
    raise_if_Inr_iff
  by auto

lemma draw_img_dict_Inl_iff:
  "draw_img_dict mpl ldict colormap vrange pind ((k, img) # rest) = Inl e \<longleftrightarrow>
     draw_img mpl ldict colormap vrange pind k img = Inl e
   \<or> (\<exists>img'. draw_img mpl ldict colormap vrange pind k img = Inr img'
          \<and> draw_img_dict mpl ldict colormap vrange pind rest = Inl e)"
  by (auto simp: and_then_Inl_iff)

lemma draw_img_dicts_Inl_iff:
  "draw_img_dicts mpl sl st colormap vrange pind ((img_dict, name) # rest) = Inl e \<longleftrightarrow>
     (map_of sl name = None \<and> e = KeyError (Inl name))
   \<or> (\<exists>p. map_of sl name = Some p
        \<and> (draw_img_dict mpl (st p) colormap vrange pind img_dict = Inl e
           \<or> (\<exists>d. draw_img_dict mpl (st p) colormap vrange pind img_dict = Inr d
                \<and> draw_img_dicts mpl sl st colormap vrange pind rest = Inl e)))"
  by (auto simp: and_then_Inl_iff lookup_Inl_iff lookup_Inr_iff)

lemma collect_ldicts_Inl_iff:
  "collect_ldicts snap targ (name # rest) sl st = Inl e \<longleftrightarrow>
     (map_of snap name = None \<and> e = KeyError (Inl name))
   \<or> (\<exists>a. map_of snap name = Some (PyArr a) \<and> e = IndexError)
   \<or> (\<exists>n. map_of snap name = Some (PyInt n) \<and> e = TypeError)
   \<or> (\<exists>p. map_of snap name = Some (PyRef p)
        \<and> collect_ldicts snap targ rest (AList.update name p sl)
             (st(p := AList.update ''targets'' targ (st p))) = Inl e)"
  by (auto split: option.splits pyobj.splits)

lemma draw_layers_Inl_iff:
  "draw_layers mpl load path img_dicts layer_names colormap vrange tind pind = Inl e \<longleftrightarrow>
     load path = Inl e
   \<or> (\<exists>ld. load path = Inr ld \<and> (py_index (snaps ld) tind = Inl e
     \<or> (\<exists>snap. py_index (snaps ld) tind = Inr snap \<and> (lookup snap ''enum'' = Inl e
       \<or> (\<exists>enum. lookup snap ''enum'' = Inr enum \<and> (lookup snap ''loss'' = Inl e
         \<or> (\<exists>losses. lookup snap ''loss'' = Inr losses
              \<and> (subscript (objects ld) losses pind = Inl e
           \<or> (\<exists>loss. subscript (objects ld) losses pind = Inr loss
                \<and> (lookup snap ''target'' = Inl e
             \<or> (\<exists>targ. lookup snap ''target'' = Inr targ
                  \<and> (collect_ldicts snap targ layer_names [] (objects ld) = Inl e
               \<or> (\<exists>sl st. collect_ldicts snap targ layer_names [] (objects ld) = Inr (sl, st)
                    \<and> (format_5f loss = Inl e
                 \<or> (\<exists>shown. format_5f loss = Inr shown
                      \<and> draw_img_dicts mpl sl st colormap vrange pind
                            (zip img_dicts layer_names) = Inl e)))))))))))))))"
  unfolding draw_layers_def and_then_Inl_iff split_paired_Ex prod.case
  by (simp only: sum.simps simp_thms)


lemma make_logs_widget_Inl_iff:
  "make_logs_widget ls jn log_path = Inl e \<longleftrightarrow>
     ls log_path = Inl e
   \<or> (\<exists>listing. ls log_path = Inr listing
         \<and> filter (str_contains ''.pkl'') listing = [] \<and> e = IndexError)"
proof (cases "ls log_path")
  case (Inl e')
  then show ?thesis by (simp add: make_logs_widget_def)
next
  case (Inr listing)
  show ?thesis
  proof (cases "filter (str_contains ''.pkl'') listing")
    case Nil
    then show ?thesis using Inr by (auto simp: make_logs_widget_def Let_def py_index_0)
  next
    case (Cons f fs)
    have "lookup (foldl (\<lambda>d filename. AList.update filename (jn log_path filename) d) [] (f # fs)) f
          = Inr (jn log_path f)"
      unfolding lookup_def map_of_foldl_update by simp
    then show ?thesis using Inr Cons by (simp add: make_logs_widget_def Let_def py_index_0)
  qed
qed

lemma step_widget_Inl_iff: "step_widget epochs = Inl e \<longleftrightarrow> epochs = [] \<and> e = IndexError"
  by (cases epochs) (auto simp: step_widget_def py_index_0)

lemma make_axes_dicts_Inl_iff:
  "(make_axes_dicts layer_dims mode ((name, disp_targ) # rest) :: py_error + 'a::zero img_dict list)
     = Inl e \<longleftrightarrow>
     (map_of layer_dims name = None \<and> e = KeyError (Inl name))
   \<or> (\<exists>dims. map_of layer_dims name = Some dims
        \<and> (py_index dims 0 = Inl e
           \<or> (\<exists>inp_size. py_index dims 0 = Inr inp_size
                \<and> (py_index dims 1 = Inl e
                   \<or> (\<exists>layer_size. py_index dims 1 = Inr layer_size
                        \<and> (make_axes_dicts layer_dims mode rest :: py_error + 'a img_dict list)
                            = Inl e)))))"
  by (auto simp: and_then_Inl_iff lookup_Inl_iff lookup_Inr_iff)

lemma view_layers_Inl_iff:
  "(view_layers h log_path mode :: py_error + 'a::zero view) = Inl e \<longleftrightarrow>
     make_logs_widget (listdir h) (joinp h) log_path = Inl e
   \<or> (\<exists>w. make_logs_widget (listdir h) (joinp h) log_path = Inr w
        \<and> (get_epochs h (dd_value w) = Inl e
     \<or> (\<exists>epochs. get_epochs h (dd_value w) = Inr epochs
          \<and> (get_layer_names h (dd_value w) = Inl e
       \<or> (\<exists>names. get_layer_names h (dd_value w) = Inr names
            \<and> (get_layer_dims h (dd_value w) names = Inl e
         \<or> (\<exists>dims. get_layer_dims h (dd_value w) names = Inr dims
              \<and> ((make_axes_dicts dims mode (zip names (disp_targs names))
                     :: py_error + 'a img_dict list) = Inl e
           \<or> (\<exists>grids :: 'a img_dict list.
                  make_axes_dicts dims mode (zip names (disp_targs names)) = Inr grids
                \<and> (step_widget epochs = Inl e
             \<or> (\<exists>step_w. step_widget epochs = Inr step_w
                  \<and> get_pattern_options h (dd_value w) (sl_value step_w) = Inl e)))))))))))"
  unfolding view_layers_def Let_def and_then_Inl_iff
  by (simp only: sum.simps simp_thms)

text \<open>
  Claim C2.  No step of the module turns an exception into a value.  First, as stated:
  whatever the directory listing raises leaves \<open>_make_logs_widget\<close> unchanged; a listing
  without a name containing \<open>.pkl\<close> ends it with \<open>IndexError\<close>; either ends
  \<open>view_layers\<close> with the same exception; whatever the log loader raises leaves
  \<open>_draw_layers\<close> unchanged; on a snapshot that lacks \<open>enum\<close>, \<open>loss\<close>, \<open>target\<close> or a
  layer name \<open>_draw_layers\<close> ends with an exception, the \<open>KeyError\<close> for \<open>enum\<close> when that
  is the key missing.  Then, for every function and every loop of the module: it ends with
  the exception \<open>e\<close> exactly when one of its steps, reached after all earlier steps have
  returned, raises \<open>e\<close>.  This covers, in \<open>view_layers\<close>, the dropdown, the four calls
  into \<open>utils\<close>, the sizes \<open>layer_dims[layer_name][0]\<close> and \<open>[1]\<close> and \<open>epochs[0]\<close>; in
  \<open>_draw_layers\<close>, the loader, \<open>[tind]\<close>, the keys \<open>enum\<close>, \<open>loss\<close>, \<open>target\<close>,
  \<open>[pind]\<close>, every layer name, the format of the loss, and for every image the key of its
  tensor, the transposition, \<open>expand_dims\<close>, the cut at \<open>pind\<close>, \<open>set_data\<close> and
  \<open>get_cmap\<close>.
\<close>

theorem exceptions_propagate:
  "(ls log_path = Inl e \<longrightarrow> make_logs_widget ls jn log_path = Inl e)
   \<and> (ls log_path = Inr listing \<and> (\<forall>f\<in>set listing. \<not> str_contains ''.pkl'' f) \<longrightarrow>
        make_logs_widget ls jn log_path = Inl IndexError)
   \<and> (make_logs_widget (listdir h) (joinp h) log_path = Inl e \<longrightarrow>
        (view_layers h log_path mode :: py_error + 'v::zero view) = Inl e)
   \<and> (load path = Inl e \<longrightarrow>
        draw_layers mpl load path img_dicts layer_names colormap vrange tind pind = Inl e)
   \<and> (load path = Inr ld \<and> py_index (snaps ld) tind = Inr snap
        \<and> k \<in> {''enum'', ''loss'', ''target''} \<union> set layer_names \<and> map_of snap k = None \<longrightarrow>
        (\<exists>e'. draw_layers mpl load path img_dicts layer_names colormap vrange tind pind = Inl e'))
   \<and> (load path = Inr ld \<and> py_index (snaps ld) tind = Inr snap \<and> map_of snap ''enum'' = None \<longrightarrow>
        draw_layers mpl load path img_dicts layer_names colormap vrange tind pind
          = Inl (KeyError (Inl ''enum'')))
   \<and> (make_logs_widget ls jn log_path = Inl e \<longleftrightarrow>
          ls log_path = Inl e
        \<or> (\<exists>listing. ls log_path = Inr listing
              \<and> filter (str_contains ''.pkl'') listing = [] \<and> e = IndexError))
   \<and> ((view_layers h log_path mode :: py_error + 'v view) = Inl e \<longleftrightarrow>
          make_logs_widget (listdir h) (joinp h) log_path = Inl e
        \<or> (\<exists>w. make_logs_widget (listdir h) (joinp h) log_path = Inr w
             \<and> (get_epochs h (dd_value w) = Inl e
          \<or> (\<exists>epochs. get_epochs h (dd_value w) = Inr epochs
               \<and> (get_layer_names h (dd_value w) = Inl e
            \<or> (\<exists>names. get_layer_names h (dd_value w) = Inr names
                 \<and> (get_layer_dims h (dd_value w) names = Inl e
              \<or> (\<exists>dims. get_layer_dims h (dd_value w) names = Inr dims
                   \<and> ((make_axes_dicts dims mode (zip names (disp_targs names))
                          :: py_error + 'v img_dict list) = Inl e
                \<or> (\<exists>grids :: 'v img_dict list.
                       make_axes_dicts dims mode (zip names (disp_targs names)) = Inr grids
                     \<and> (step_widget epochs = Inl e
                  \<or> (\<exists>step_w. step_widget epochs = Inr step_w
                       \<and> get_pattern_options h (dd_value w) (sl_value step_w) = Inl e))))))))))))
   \<and> ((make_axes_dicts layer_dims mode ((name, disp_targ) # pairs_rest)
          :: py_error + 'v img_dict list) = Inl e \<longleftrightarrow>
          (map_of layer_dims name = None \<and> e = KeyError (Inl name))
        \<or> (\<exists>dims. map_of layer_dims name = Some dims
             \<and> (py_index dims 0 = Inl e
                \<or> (\<exists>inp_size. py_index dims 0 = Inr inp_size
                     \<and> (py_index dims 1 = Inl e
                        \<or> (\<exists>layer_size. py_index dims 1 = Inr layer_size
                             \<and> (make_axes_dicts layer_dims mode pairs_rest
                                   :: py_error + 'v img_dict list) = Inl e))))))
   \<and> (step_widget eps = Inl e \<longleftrightarrow> eps = [] \<and> e = IndexError)
   \<and> (draw_layers mpl load path img_dicts layer_names colormap vrange tind pind = Inl e \<longleftrightarrow>
          load path = Inl e
        \<or> (\<exists>ld. load path = Inr ld \<and> (py_index (snaps ld) tind = Inl e
          \<or> (\<exists>snap. py_index (snaps ld) tind = Inr snap \<and> (lookup snap ''enum'' = Inl e
            \<or> (\<exists>enum. lookup snap ''enum'' = Inr enum \<and> (lookup snap ''loss'' = Inl e
              \<or> (\<exists>losses. lookup snap ''loss'' = Inr losses
                   \<and> (subscript (objects ld) losses pind = Inl e
                \<or> (\<exists>loss. subscript (objects ld) losses pind = Inr loss
                     \<and> (lookup snap ''target'' = Inl e
                  \<or> (\<exists>targ. lookup snap ''target'' = Inr targ
                       \<and> (collect_ldicts snap targ layer_names [] (objects ld) = Inl e
                    \<or> (\<exists>sl st. collect_ldicts snap targ layer_names [] (objects ld) = Inr (sl, st)
                         \<and> (format_5f loss = Inl e
                      \<or> (\<exists>shown. format_5f loss = Inr shown
                           \<and> draw_img_dicts mpl sl st colormap vrange pind
                                 (zip img_dicts layer_names) = Inl e))))))))))))))))
   \<and> (collect_ldicts snp trg (name # names_rest) sld sto = Inl e \<longleftrightarrow>
          (map_of snp name = None \<and> e = KeyError (Inl name))
        \<or> (\<exists>a. map_of snp name = Some (PyArr a) \<and> e = IndexError)
        \<or> (\<exists>n. map_of snp name = Some (PyInt n) \<and> e = TypeError)
        \<or> (\<exists>p. map_of snp name = Some (PyRef p)
             \<and> collect_ldicts snp trg names_rest (AList.update name p sld)
                  (sto(p := AList.update ''targets'' trg (sto p))) = Inl e))
   \<and> (draw_img_dicts mpl sld sto colormap vrange pind ((img_dict, name) # grids_rest) = Inl e
        \<longleftrightarrow>
          (map_of sld name = None \<and> e = KeyError (Inl name))
        \<or> (\<exists>p. map_of sld name = Some p
             \<and> (draw_img_dict mpl (sto p) colormap vrange pind img_dict = Inl e
                \<or> (\<exists>d. draw_img_dict mpl (sto p) colormap vrange pind img_dict = Inr d
                     \<and> draw_img_dicts mpl sld sto colormap vrange pind grids_rest = Inl e))))
   \<and> (draw_img_dict mpl ldict colormap vrange pind ((key, img) # imgs_rest) = Inl e \<longleftrightarrow>
          draw_img mpl ldict colormap vrange pind key img = Inl e
        \<or> (\<exists>img'. draw_img mpl ldict colormap vrange pind key img = Inr img'
               \<and> draw_img_dict mpl ldict colormap vrange pind imgs_rest = Inl e))
   \<and> (draw_img mpl ldict colormap vrange pind key img = Inl e \<longleftrightarrow>
          (map_of ldict key = None \<and> e = KeyError (Inl key))
        \<or> (\<exists>v. map_of ldict key = Some v
             \<and> (draw_data key pind v = Inl e
                \<or> (\<exists>d. draw_data key pind v = Inr d
                     \<and> (set_data_raises mpl d = Some e
                        \<or> (set_data_raises mpl d = None
                            \<and> get_cmap_raises mpl colormap = Some e))))))
   \<and> (draw_data key pind obj = Inl e \<longleftrightarrow>
          (\<exists>a. obj = PyArr a \<and> draw_array key pind a = Inl e)
        \<or> ((\<exists>n. obj = PyInt n) \<or> (\<exists>p. obj = PyRef p))
           \<and> e = (if key = ''weights'' then AttributeError
                   else if str_contains ''biases'' key then AxisError else AttributeError))
   \<and> (draw_array key pind arr = Inl e \<longleftrightarrow>
          (str_contains ''biases'' key
             \<and> expand_dims_axis1 (if key = ''weights'' then transpose_nd arr else arr) = Inl e)
        \<or> (\<exists>d2. (if str_contains ''biases'' key
                   then expand_dims_axis1 (if key = ''weights'' then transpose_nd arr else arr)
                   else Inr (if key = ''weights'' then transpose_nd arr else arr)) = Inr d2
               \<and> ndim d2 > 2 \<and> getitem d2 pind = Inl e))
   \<and> (expand_dims_axis1 arr = Inl e \<longleftrightarrow> shape arr = [] \<and> e = AxisError)
   \<and> (getitem arr pind = Inl e \<longleftrightarrow>
          e = IndexError
        \<and> (shape arr = [] \<or> pind < - int (hd (shape arr)) \<or> int (hd (shape arr)) \<le> pind))
   \<and> (subscript sto obj pind = Inl e \<longleftrightarrow>
          (\<exists>a. obj = PyArr a \<and> getitem a pind = Inl e)
        \<or> (\<exists>n. obj = PyInt n \<and> e = TypeError)
        \<or> (\<exists>p. obj = PyRef p \<and> e = KeyError (Inr pind)))
   \<and> (format_5f obj = Inl e \<longleftrightarrow>
          e = TypeError
        \<and> (\<exists>a. obj = PyArr a \<and> (shape a \<noteq> [] \<or> length (flat a) \<noteq> 1) \<or> (\<exists>p. obj = PyRef p)))
   \<and> (py_index xs tind = Inl e \<longleftrightarrow>
          e = IndexError \<and> (tind < - int (length xs) \<or> int (length xs) \<le> tind))
   \<and> (lookup dict key = Inl e \<longleftrightarrow> map_of dict key = None \<and> e = KeyError (Inl key))"
  apply (intro conjI impI)
  subgoal by (simp add: make_logs_widget_def)
  subgoal using make_logs_widget_no_pkl by blast
  subgoal by (simp add: view_layers_def)
  subgoal by (simp add: draw_layers_def)
  subgoal using draw_layers_missing_key by blast
  subgoal by (simp add: draw_layers_def lookup_None)
  subgoal by (rule make_logs_widget_Inl_iff)
  subgoal by (rule view_layers_Inl_iff)
  subgoal by (rule make_axes_dicts_Inl_iff)
  subgoal by (rule step_widget_Inl_iff)
  subgoal by (rule draw_layers_Inl_iff)
  subgoal by (rule collect_ldicts_Inl_iff)
  subgoal by (rule draw_img_dicts_Inl_iff)
  subgoal by (rule draw_img_dict_Inl_iff)
  subgoal by (rule draw_img_Inl_iff)
  subgoal by (rule draw_data_Inl_iff)
  subgoal by (rule draw_array_Inl_iff)
  subgoal by (rule expand_dims_axis1_Inl_iff)
  subgoal by (rule getitem_Inl_iff)
  subgoal by (rule subscript_Inl_iff)
  subgoal by (rule format_5f_Inl_iff)
  subgoal by (rule py_index_Inl_iff)
  subgoal by (rule lookup_Inl_iff)
  done

text \<open>
  A directory that cannot be listed, a directory without run logs, a run log that cannot
  be loaded, a snapshot without the layer \<open>hidden\<close>, an empty snapshot; then a layer
  dictionary without \<open>weights\<close>, a net input of one axis that the plotting library
  refuses, a colormap it does not know, a run log whose epochs cannot be read, and a run
  log without epochs.
\<close>

theorem exceptions_propagate_witness:
  "make_logs_widget (\<lambda>p. Inl (HostError ''FileNotFoundError'')) (\<lambda>a b. a @ ''/'' @ b) ''logs''
     = Inl (HostError ''FileNotFoundError'')
   \<and> make_logs_widget (\<lambda>p. Inr [''notes.txt'']) (\<lambda>a b. a @ ''/'' @ b) ''logs'' = Inl IndexError
   \<and> (view_layers \<lparr>listdir = (\<lambda>p. Inr [''notes.txt'']), joinp = (\<lambda>a b. a @ ''/'' @ b),
                    get_epochs = (\<lambda>p. Inr [0]), get_layer_names = (\<lambda>p. Inr []),
                    get_layer_dims = (\<lambda>p ns. Inr []), get_pattern_options = (\<lambda>p t. Inr [])\<rparr>
         ''logs'' 0 :: py_error + int view) = Inl IndexError
   \<and> draw_layers two_axes_plotting (\<lambda>p. Inl (HostError ''UnpicklingError'') :: py_error + int loaded)
         ''logs/run1.pkl'' [] [''hidden''] ''coolwarm'' (- 1, 1) 0 0
       = Inl (HostError ''UnpicklingError'')
   \<and> (\<exists>e'. draw_layers two_axes_plotting
           (\<lambda>p. Inr \<lparr>snaps = [[(''enum'', PyInt 0), (''loss'', PyArr (NDArray [1] [0])),
                                (''target'', PyArr (NDArray [1, 1] [1]))]],
                      objects = (\<lambda>a. [])\<rparr> :: py_error + int loaded)
           ''logs/run1.pkl'' [] [''hidden''] ''coolwarm'' (- 1, 1) 0 0 = Inl e')
   \<and> draw_layers two_axes_plotting (\<lambda>p. Inr \<lparr>snaps = [[]], objects = (\<lambda>a. [])\<rparr> :: py_error + int loaded)
         ''logs/run1.pkl'' [] [''hidden''] ''coolwarm'' (- 1, 1) 0 0
       = Inl (KeyError (Inl ''enum''))
   \<and> draw_layers two_axes_plotting
         (\<lambda>p. Inr \<lparr>snaps = [[(''enum'', PyInt 0), (''loss'', PyArr (NDArray [1] [0 :: int])),
                             (''target'', PyArr (NDArray [1, 1] [1])), (''hidden'', PyRef 0)]],
                    objects = (\<lambda>a. [])\<rparr>)
         ''logs/run1.pkl'' [[(''weights'', new_image ((0, 2), (2, 3), ''W''))]] [''hidden'']
         ''coolwarm'' (- 1, 1) 0 0
       = Inl (KeyError (Inl ''weights''))
   \<and> draw_img two_axes_plotting [] ''coolwarm'' (- 1, 1) 0 ''weights''
         (new_image ((0, 2), (2, 3), ''W'') :: int image)
       = Inl (KeyError (Inl ''weights''))
   \<and> draw_img two_axes_plotting [(''net_input'', PyArr (NDArray [3] [1, 2, 3 :: int]))]
         ''coolwarm'' (- 1, 1) 0 ''net_input'' (new_image ((4, 2), (3, 1), ''net''))
       = Inl TypeError
   \<and> draw_img two_axes_plotting [(''net_input'', PyArr (NDArray [2, 1] [1, 2 :: int]))]
         ''no_such_colormap'' (- 1, 1) 0 ''net_input'' (new_image ((4, 2), (2, 1), ''net''))
       = Inl ValueError
   \<and> (view_layers \<lparr>listdir = (\<lambda>p. Inr [''run1.pkl'']), joinp = (\<lambda>a b. a @ ''/'' @ b),
                    get_epochs = (\<lambda>p. Inl (HostError ''UnpicklingError'')),
                    get_layer_names = (\<lambda>p. Inr []),
                    get_layer_dims = (\<lambda>p ns. Inr []), get_pattern_options = (\<lambda>p t. Inr [])\<rparr>
         ''logs'' 0 :: py_error + int view) = Inl (HostError ''UnpicklingError'')
   \<and> step_widget [] = Inl IndexError"
proof -
  let ?jn = "\<lambda>a b :: string. a @ ''/'' @ b"
  let ?ls0 = "\<lambda>p :: string. (Inl (HostError ''FileNotFoundError'') :: py_error + string list)"
  let ?ls1 = "\<lambda>p :: string. (Inr [''notes.txt''] :: py_error + string list)"
  let ?h = "\<lparr>listdir = ?ls1, joinp = ?jn,
             get_epochs = (\<lambda>p. Inr [0]), get_layer_names = (\<lambda>p. Inr []),
             get_layer_dims = (\<lambda>p ns. Inr []), get_pattern_options = (\<lambda>p t. Inr [])\<rparr>"
  let ?ld0 = "\<lambda>p :: string. (Inl (HostError ''UnpicklingError'') :: py_error + int loaded)"
  let ?snap = "[(''enum'', PyInt 0), (''loss'', PyArr (NDArray [1] [0 :: int])),
                (''target'', PyArr (NDArray [1, 1] [1]))]"
  let ?l1 = "\<lparr>snaps = [?snap], objects = (\<lambda>a. [])\<rparr> :: int loaded"
  let ?l2 = "\<lparr>snaps = [[]], objects = (\<lambda>a. [])\<rparr> :: int loaded"
  have c1: "make_logs_widget ?ls0 ?jn ''logs'' = Inl (HostError ''FileNotFoundError'')"
    using exceptions_propagate[where ls = ?ls0 and log_path = "''logs''"
        and e = "HostError ''FileNotFoundError''" and jn = ?jn, THEN conjunct1]
    by simp
  have nopkl: "?ls1 ''logs'' = Inr [''notes.txt''] \<and> (\<forall>f\<in>set [''notes.txt'']. \<not> str_contains ''.pkl'' f)"
    by simp
  have c2: "make_logs_widget ?ls1 ?jn ''logs'' = Inl IndexError"
    using exceptions_propagate[where ls = ?ls1 and log_path = "''logs''"
        and listing = "[''notes.txt'']" and jn = ?jn, THEN conjunct2, THEN conjunct1] nopkl
    by blast
  have "make_logs_widget (listdir ?h) (joinp ?h) ''logs'' = Inl IndexError"
    using c2 by simp
  then have c3: "(view_layers ?h ''logs'' 0 :: py_error + int view) = Inl IndexError"
    using exceptions_propagate[where h = ?h and log_path = "''logs''" and e = IndexError
        and mode = 0 and 'v = int, THEN conjunct2, THEN conjunct2, THEN conjunct1]
    by blast
  have c4: "draw_layers two_axes_plotting ?ld0 ''logs/run1.pkl'' [] [''hidden''] ''coolwarm'' (- 1, 1) 0 0
       = Inl (HostError ''UnpicklingError'')"
    using exceptions_propagate[where load = ?ld0 and path = "''logs/run1.pkl''"
        and e = "HostError ''UnpicklingError''" and img_dicts = "[]"
        and layer_names = "[''hidden'']" and colormap = "''coolwarm''" and vrange = "(- 1, 1)"
        and tind = 0 and pind = 0 and mpl = two_axes_plotting,
        THEN conjunct2, THEN conjunct2, THEN conjunct2, THEN conjunct1]
    by simp
  have h5: "(\<lambda>p :: string. Inr ?l1 :: py_error + int loaded) ''logs/run1.pkl'' = Inr ?l1
        \<and> py_index (snaps ?l1) 0 = Inr ?snap
        \<and> ''hidden'' \<in> {''enum'', ''loss'', ''target''} \<union> set [''hidden'']
        \<and> map_of ?snap ''hidden'' = None"
    by (simp add: py_index_0)
  have c5: "\<exists>e'. draw_layers two_axes_plotting (\<lambda>p. Inr ?l1) ''logs/run1.pkl'' [] [''hidden''] ''coolwarm'' (- 1, 1) 0 0 = Inl e'"
    using exceptions_propagate[where load = "\<lambda>p. Inr ?l1" and path = "''logs/run1.pkl''"
        and ld = ?l1 and snap = ?snap and k = "''hidden''" and img_dicts = "[]"
        and layer_names = "[''hidden'']" and colormap = "''coolwarm''" and vrange = "(- 1, 1)"
        and tind = 0 and pind = 0 and mpl = two_axes_plotting,
        THEN conjunct2, THEN conjunct2, THEN conjunct2, THEN conjunct2, THEN conjunct1] h5
    by blast
  have h6: "(\<lambda>p :: string. Inr ?l2 :: py_error + int loaded) ''logs/run1.pkl'' = Inr ?l2
        \<and> py_index (snaps ?l2) 0 = Inr [] \<and> map_of ([] :: int pydict) ''enum'' = None"
    by (simp add: py_index_0)
  have c6: "draw_layers two_axes_plotting (\<lambda>p. Inr ?l2) ''logs/run1.pkl'' [] [''hidden''] ''coolwarm'' (- 1, 1) 0 0
       = Inl (KeyError (Inl ''enum''))"
    using exceptions_propagate[where load = "\<lambda>p. Inr ?l2" and path = "''logs/run1.pkl''"
        and ld = ?l2 and snap = "[]" and img_dicts = "[]"
        and layer_names = "[''hidden'']" and colormap = "''coolwarm''" and vrange = "(- 1, 1)"
        and tind = 0 and pind = 0 and mpl = two_axes_plotting,
        THEN conjunct2, THEN conjunct2, THEN conjunct2, THEN conjunct2, THEN conjunct2,
        THEN conjunct1] h6
    by blast
  have c8: "draw_img two_axes_plotting [] ''coolwarm'' (- 1, 1) 0 ''weights''
         (new_image ((0, 2), (2, 3), ''W'') :: int image)
       = Inl (KeyError (Inl ''weights''))"
    by (rule exceptions_propagate[where mpl = two_axes_plotting and ldict = "[]"
          and key = "''weights''", THEN conjunct2, THEN conjunct2, THEN conjunct2,
      THEN conjunct2, THEN conjunct2, THEN conjunct2, THEN conjunct2, THEN conjunct2,
      THEN conjunct2, THEN conjunct2, THEN conjunct2, THEN conjunct2, THEN conjunct2,
      THEN conjunct2, THEN conjunct1, THEN iffD2]) simp
  have c7: "draw_layers two_axes_plotting
         (\<lambda>p. Inr \<lparr>snaps = [[(''enum'', PyInt 0), (''loss'', PyArr (NDArray [1] [0 :: int])),
                             (''target'', PyArr (NDArray [1, 1] [1])), (''hidden'', PyRef 0)]],
                    objects = (\<lambda>a. [])\<rparr>)
         ''logs/run1.pkl'' [[(''weights'', new_image ((0, 2), (2, 3), ''W''))]] [''hidden'']
         ''coolwarm'' (- 1, 1) 0 0
       = Inl (KeyError (Inl ''weights''))"
    by (simp add: draw_layers_def py_index_0 lookup_def subscript_def getitem_def norm_index_def
        format_5f_def draw_img_def)
  have d9: "draw_data ''net_input'' 0 (PyArr (NDArray [3] [1, 2, 3 :: int]))
            = Inr (NDArray [3] [1, 2, 3])"
    by (simp add: draw_data_def draw_array_def ndim_def)
  have c9: "draw_img two_axes_plotting [(''net_input'', PyArr (NDArray [3] [1, 2, 3 :: int]))]
         ''coolwarm'' (- 1, 1) 0 ''net_input'' (new_image ((4, 2), (3, 1), ''net''))
       = Inl TypeError"
    by (rule exceptions_propagate[where mpl = two_axes_plotting and key = "''net_input''",
      THEN conjunct2, THEN conjunct2, THEN conjunct2,
      THEN conjunct2, THEN conjunct2, THEN conjunct2, THEN conjunct2, THEN conjunct2,
      THEN conjunct2, THEN conjunct2, THEN conjunct2, THEN conjunct2, THEN conjunct2,
      THEN conjunct2, THEN conjunct1, THEN iffD2])
       (simp add: d9 two_axes_plotting_def ndim_def)
  have d10: "draw_data ''net_input'' 0 (PyArr (NDArray [2, 1] [1, 2 :: int]))
            = Inr (NDArray [2, 1] [1, 2])"
    by (simp add: draw_data_def draw_array_def ndim_def del: One_nat_def)
  have c10: "draw_img two_axes_plotting [(''net_input'', PyArr (NDArray [2, 1] [1, 2 :: int]))]
         ''no_such_colormap'' (- 1, 1) 0 ''net_input'' (new_image ((4, 2), (2, 1), ''net''))
       = Inl ValueError"
    by (rule exceptions_propagate[where mpl = two_axes_plotting and key = "''net_input''",
      THEN conjunct2, THEN conjunct2, THEN conjunct2,
      THEN conjunct2, THEN conjunct2, THEN conjunct2, THEN conjunct2, THEN conjunct2,
      THEN conjunct2, THEN conjunct2, THEN conjunct2, THEN conjunct2, THEN conjunct2,
      THEN conjunct2, THEN conjunct1, THEN iffD2])
       (simp add: d10 two_axes_plotting_def ndim_def del: One_nat_def)
  let ?h2 = "\<lparr>listdir = (\<lambda>p. Inr [''run1.pkl'']), joinp = ?jn,
              get_epochs = (\<lambda>p. Inl (HostError ''UnpicklingError'')),
              get_layer_names = (\<lambda>p. Inr []),
              get_layer_dims = (\<lambda>p ns. Inr []), get_pattern_options = (\<lambda>p t. Inr [])\<rparr>"
  have w2: "make_logs_widget (listdir ?h2) (joinp ?h2) ''logs''
            = Inr \<lparr>dd_options = [(''run1.pkl'', ''logs/run1.pkl'')],
                   dd_description = ''Run log: '', dd_value = ''logs/run1.pkl''\<rparr>"
    by (simp add: make_logs_widget_def Let_def py_index_0 lookup_def)
  have c11: "(view_layers ?h2 ''logs'' 0 :: py_error + int view)
             = Inl (HostError ''UnpicklingError'')"
    by (rule exceptions_propagate[where h = ?h2 and 'v = int,
          THEN conjunct2, THEN conjunct2, THEN conjunct2, THEN conjunct2, THEN conjunct2,
          THEN conjunct2, THEN conjunct2, THEN conjunct1, THEN iffD2])
       (use w2 in simp)
  have c12: "step_widget [] = Inl IndexError"
    by (rule exceptions_propagate[THEN conjunct2, THEN conjunct2, THEN conjunct2,
          THEN conjunct2, THEN conjunct2, THEN conjunct2, THEN conjunct2, THEN conjunct2,
          THEN conjunct2, THEN conjunct1, THEN iffD2]) simp
  show ?thesis
    apply (intro conjI)
               apply (rule c1)
              apply (rule c2)
             apply (rule c3)
            apply (rule c4)
           apply (rule c5)
          apply (rule c6)
         apply (rule c7)
        apply (rule c8)
       apply (rule c9)
      apply (rule c10)
     apply (rule c11)
    apply (rule c12)
    done
qed


end
